theory Spec2Isabelle
  imports Complex_Main
begin

section \<open>Data model\<close>

text \<open>
  The two source files (\<^verbatim>\<open>server.py\<close>, \<^verbatim>\<open>app.py\<close>) share the cache and the resolvers.
  Upstream JSON dictionaries are records; a key read with \<^verbatim>\<open>.get\<close> is an optional field.
  Wall-clock readings of \<^verbatim>\<open>time()\<close> and similarity values are real numbers.
\<close>

datatype endpoint = OpeningList | CandidateList | UsersDirectory | GoogleSheet

text \<open>Observable effects: an HTTP POST to an endpoint, and a run of the TF-IDF vectorizer.\<close>

datatype event = HttpPost endpoint | TfidfFit

text \<open>
  The exceptions that leave a function: the missing credential, the wrapped
  \<^verbatim>\<open>RequestException\<close> (connection error, timeout, HTTP error status), the error of
  \<^verbatim>\<open>response.json()\<close> on an undecodable body, and the error of \<^verbatim>\<open>int(...)\<close>.
\<close>

datatype error = ConfigError | ConnectivityError | DecodeError | ValueError

text \<open>
  What \<^verbatim>\<open>requests.post\<close> followed by \<^verbatim>\<open>raise_for_status\<close> and \<^verbatim>\<open>response.json()\<close>
  yields: a \<^verbatim>\<open>RequestException\<close>, a body that is not JSON, or the decoded body.
\<close>

datatype 'a http_result = RequestException | BodyNotJson | Body 'a

record raw_opening =
  ro_id :: string
  ro_name :: string
  ro_status :: "string option"
  ro_content :: "string option"

text \<open>The decoded body of the opening list: the value under key \<^verbatim>\<open>openings\<close>, if present.\<close>

type_synonym openings_body = "raw_opening list option"

record opening_rec =
  opening_id :: string
  opening_name :: string

record job_description_rec =
  jd_id :: string
  jd_name :: string
  job_description :: string
  html_content :: string

record user_info =
  ui_name :: string
  ui_title :: string

record 'a cache_entry =
  data :: "'a option"
  timestamp :: real

text \<open>The module-level dictionary \<^verbatim>\<open>_cache\<close> with its three fixed keys, and the effect log.\<close>

record state =
  cache_openings :: "opening_rec list cache_entry"
  cache_job_descriptions :: "job_description_rec list cache_entry"
  cache_users_info :: "(string \<rightharpoonup> user_info) cache_entry"
  trace :: "event list"

definition CACHE_TTL :: real where
  "CACHE_TTL = 300"

definition empty_entry :: "'a cache_entry" where
  "empty_entry = \<lparr>data = None, timestamp = 0\<rparr>"

definition initial_state :: state where
  "initial_state = \<lparr>cache_openings = empty_entry, cache_job_descriptions = empty_entry,
     cache_users_info = empty_entry, trace = []\<rparr>"

definition http_post :: "endpoint \<Rightarrow> state \<Rightarrow> state" where
  "http_post e s = s\<lparr>trace := trace s @ [HttpPost e]\<rparr>"

definition posts :: "endpoint \<Rightarrow> state \<Rightarrow> nat" where
  "posts e s = length (filter (\<lambda>x. x = HttpPost e) (trace s))"

definition fits :: "state \<Rightarrow> nat" where
  "fits s = length (filter (\<lambda>x. x = TfidfFit) (trace s))"

section \<open>Resource fetchers\<close>

text \<open>
  \<^verbatim>\<open>get_base_openings(api_key, use_cache=True)\<close>. The further arguments are the reading of
  \<^verbatim>\<open>time()\<close>, the outcome the upstream request has if it is made, and the state.
  A falsy \<^verbatim>\<open>api_key\<close> is the empty string. The upstream body is taken to be a JSON
  object whose openings carry \<^verbatim>\<open>id\<close> and \<^verbatim>\<open>name\<close>.
\<close>

definition active_openings :: "raw_opening list \<Rightarrow> opening_rec list" where
  "active_openings openings =
     map (\<lambda>op. \<lparr>opening_id = ro_id op, opening_name = ro_name op\<rparr>)
       (filter (\<lambda>op. ro_status op = Some ''10'') openings)"

definition fetch_openings ::
  "bool \<Rightarrow> real \<Rightarrow> openings_body http_result \<Rightarrow> state \<Rightarrow> (error + opening_rec list) \<times> state" where
  "fetch_openings use_cache current_time resp s =
     (let s1 = http_post OpeningList s
      in case resp of
           RequestException \<Rightarrow> (Inl ConnectivityError, s1)
         | BodyNotJson \<Rightarrow> (Inl DecodeError, s1)
         | Body body \<Rightarrow>
             (let openings = (case body of None \<Rightarrow> [] | Some os \<Rightarrow> os);
                  filtered_openings = active_openings openings
              in (Inr filtered_openings,
                  if use_cache
                  then s1\<lparr>cache_openings := \<lparr>data = Some filtered_openings, timestamp = current_time\<rparr>\<rparr>
                  else s1)))"

definition get_base_openings ::
  "string \<Rightarrow> bool \<Rightarrow> real \<Rightarrow> openings_body http_result \<Rightarrow> state \<Rightarrow> (error + opening_rec list) \<times> state" where
  "get_base_openings api_key use_cache current_time resp s =
     (if api_key = [] then (Inl ConfigError, s)
      else
        (case (if use_cache then data (cache_openings s) else None) of
           Some cached \<Rightarrow>
             if current_time - timestamp (cache_openings s) < CACHE_TTL then (Inr cached, s)
             else fetch_openings use_cache current_time resp s
         | None \<Rightarrow> fetch_openings use_cache current_time resp s))"

section \<open>Similarity scorer and argmax\<close>

text \<open>
  The scorer is the library pipeline \<^verbatim>\<open>TfidfVectorizer().fit_transform(pool)\<close>,
  \<^verbatim>\<open>transform([query])\<close>, \<^verbatim>\<open>cosine_similarity(...).flatten()\<close>. It is a parameter:
  given the query and the pool it yields the similarities in pool order, or \<open>None\<close>
  when any of the three calls raises.
\<close>

type_synonym scorer = "string \<Rightarrow> string list \<Rightarrow> real list option"

text \<open>
  \<^verbatim>\<open>np.argmax\<close>: a left-to-right scan that keeps the first maximal element; it raises
  on an empty array (\<open>None\<close>).
\<close>

fun argmax_scan :: "nat \<Rightarrow> real \<Rightarrow> nat \<Rightarrow> real list \<Rightarrow> nat" where
  "argmax_scan best_i best_v i [] = best_i"
| "argmax_scan best_i best_v i (x # xs) =
     (if best_v < x then argmax_scan i x (Suc i) xs else argmax_scan best_i best_v (Suc i) xs)"

definition argmax :: "real list \<Rightarrow> nat option" where
  "argmax xs = (case xs of [] \<Rightarrow> None | x # rest \<Rightarrow> Some (argmax_scan 0 x 1 rest))"

section \<open>Opening resolution\<close>

type_synonym resolution = "string option \<times> string option \<times> real"

definition is_exact :: "string \<Rightarrow> opening_rec \<Rightarrow> bool" where
  "is_exact query_name op = (opening_id op = query_name \<or> opening_name op = query_name)"

text \<open>
  \<^verbatim>\<open>find_opening_id_by_name(query_name, api_key, similarity_threshold=0.5)\<close>.
  The \<^verbatim>\<open>try\<close> block covers the scorer, \<^verbatim>\<open>np.argmax\<close> and the indexing
  \<^verbatim>\<open>openings[best_idx]\<close>; each of their exceptions gives \<open>(None, None, 0.0)\<close>.
  The call of \<^verbatim>\<open>get_base_openings\<close> is outside the \<^verbatim>\<open>try\<close>.
\<close>

definition find_opening_id_by_name ::
  "scorer \<Rightarrow> string \<Rightarrow> string \<Rightarrow> real \<Rightarrow> real \<Rightarrow> openings_body http_result \<Rightarrow> state
     \<Rightarrow> (error + resolution) \<times> state" where
  "find_opening_id_by_name score query_name api_key similarity_threshold current_time resp s =
     (case get_base_openings api_key True current_time resp s of
        (Inl e, s1) \<Rightarrow> (Inl e, s1)
      | (Inr openings, s1) \<Rightarrow>
          if openings = [] then (Inr (None, None, 0), s1)
          else
            (case find (is_exact query_name) openings of
               Some exact_match \<Rightarrow>
                 (Inr (Some (opening_id exact_match), Some (opening_name exact_match), 1), s1)
             | None \<Rightarrow>
                 (let opening_names = map opening_name openings;
                      s2 = s1\<lparr>trace := trace s1 @ [TfidfFit]\<rparr>
                  in case score query_name opening_names of
                       None \<Rightarrow> (Inr (None, None, 0), s2)
                     | Some similarities \<Rightarrow>
                         (case argmax similarities of
                            None \<Rightarrow> (Inr (None, None, 0), s2)
                          | Some best_idx \<Rightarrow>
                              (let best_similarity = similarities ! best_idx
                               in if similarity_threshold \<le> best_similarity
                                  then (if best_idx < length openings
                                        then (Inr (Some (opening_id (openings ! best_idx)),
                                                   Some (opening_name (openings ! best_idx)),
                                                   best_similarity), s2)
                                        else (Inr (None, None, 0), s2))
                                  else (Inr (None, None, best_similarity), s2))))))"

section \<open>Job descriptions\<close>

text \<open>
  \<^verbatim>\<open>str.strip()\<close> removes leading and trailing whitespace. Strings are sequences of code
  points below 256; the whitespace among them is what \<^verbatim>\<open>str.isspace\<close> accepts.
\<close>

definition isspace :: "char \<Rightarrow> bool" where
  "isspace c = ((of_char c :: nat) \<in> {9, 10, 11, 12, 13, 28, 29, 30, 31, 32, 133, 160})"

definition strip :: "string \<Rightarrow> string" where
  "strip t = rev (dropWhile isspace (rev (dropWhile isspace t)))"

text \<open>
  The loop of \<^verbatim>\<open>get_job_descriptions\<close> over the upstream openings. The markup stripper
  \<^verbatim>\<open>BeautifulSoup(html, "html.parser").get_text()\<close> is the parameter \<open>get_text\<close>.
  The length test reads \<^verbatim>\<open>text_content\<close>; the stored value is \<^verbatim>\<open>text_content.strip()\<close>.
\<close>

fun jd_results :: "(string \<Rightarrow> string) \<Rightarrow> raw_opening list \<Rightarrow> job_description_rec list" where
  "jd_results get_text [] = []"
| "jd_results get_text (op # rest) =
     (if ro_status op = Some ''10''
      then (let html = (case ro_content op of None \<Rightarrow> [] | Some c \<Rightarrow> c);
                text_content = get_text html
            in if 10 \<le> length text_content
               then \<lparr>jd_id = ro_id op, jd_name = ro_name op,
                     job_description = strip text_content, html_content = html\<rparr>
                    # jd_results get_text rest
               else jd_results get_text rest)
      else jd_results get_text rest)"

definition fetch_job_descriptions ::
  "(string \<Rightarrow> string) \<Rightarrow> bool \<Rightarrow> real \<Rightarrow> openings_body http_result \<Rightarrow> state
     \<Rightarrow> (error + job_description_rec list) \<times> state" where
  "fetch_job_descriptions get_text use_cache current_time resp s =
     (let s1 = http_post OpeningList s
      in case resp of
           RequestException \<Rightarrow> (Inl ConnectivityError, s1)
         | BodyNotJson \<Rightarrow> (Inl DecodeError, s1)
         | Body body \<Rightarrow>
             (case body of
                None \<Rightarrow> (Inr [], s1)
              | Some openings \<Rightarrow>
                  (let results = jd_results get_text openings
                   in (Inr results,
                       if use_cache
                       then s1\<lparr>cache_job_descriptions := \<lparr>data = Some results, timestamp = current_time\<rparr>\<rparr>
                       else s1))))"

definition get_job_descriptions ::
  "(string \<Rightarrow> string) \<Rightarrow> string \<Rightarrow> bool \<Rightarrow> real \<Rightarrow> openings_body http_result \<Rightarrow> state
     \<Rightarrow> (error + job_description_rec list) \<times> state" where
  "get_job_descriptions get_text api_key use_cache current_time resp s =
     (if api_key = [] then (Inl ConfigError, s)
      else
        (case (if use_cache then data (cache_job_descriptions s) else None) of
           Some cached \<Rightarrow>
             if current_time - timestamp (cache_job_descriptions s) < CACHE_TTL then (Inr cached, s)
             else fetch_job_descriptions get_text use_cache current_time resp s
         | None \<Rightarrow> fetch_job_descriptions get_text use_cache current_time resp s))"

section \<open>User directory\<close>

text \<open>
  An element of the \<^verbatim>\<open>users\<close> array: a dictionary with optional \<^verbatim>\<open>username\<close>,
  \<^verbatim>\<open>name\<close> and \<^verbatim>\<open>title\<close>, or a value that is no dictionary (on which \<^verbatim>\<open>.get\<close>
  raises). The body either holds a list under \<^verbatim>\<open>users\<close> or does not.
\<close>

datatype user_item = NotADict | UserDict "string option" "string option" "string option"

datatype users_body = NoUsersList | Users "user_item list"

definition or_empty :: "string option \<Rightarrow> string" where
  "or_empty v = (case v of None \<Rightarrow> [] | Some x \<Rightarrow> x)"

fun build_user_map :: "user_item list \<Rightarrow> (string \<rightharpoonup> user_info) \<Rightarrow> (string \<rightharpoonup> user_info) option" where
  "build_user_map [] username_to_info = Some username_to_info"
| "build_user_map (NotADict # rest) username_to_info = None"
| "build_user_map (UserDict username name title # rest) username_to_info =
     (case username of
        None \<Rightarrow> build_user_map rest username_to_info
      | Some u \<Rightarrow>
          if u = [] then build_user_map rest username_to_info
          else build_user_map rest
                 (username_to_info(u \<mapsto>
                    \<lparr>ui_name = or_empty name,
                     ui_title = (if or_empty name = ''Hoang Tran'' then ''CEO'' else or_empty title)\<rparr>)))"

text \<open>
  The \<^verbatim>\<open>try\<close> block of \<^verbatim>\<open>get_users_info\<close>: every exception inside it returns the
  empty dictionary, before the cache is written.
\<close>

definition fetch_users_info ::
  "bool \<Rightarrow> real \<Rightarrow> users_body http_result \<Rightarrow> state \<Rightarrow> (string \<rightharpoonup> user_info) \<times> state" where
  "fetch_users_info use_cache current_time resp s =
     (let s1 = http_post UsersDirectory s
      in case resp of
           RequestException \<Rightarrow> (Map.empty, s1)
         | BodyNotJson \<Rightarrow> (Map.empty, s1)
         | Body users_data \<Rightarrow>
             (case (case users_data of
                      NoUsersList \<Rightarrow> Some Map.empty
                    | Users us \<Rightarrow> build_user_map us Map.empty) of
                None \<Rightarrow> (Map.empty, s1)
              | Some username_to_info \<Rightarrow>
                  (username_to_info,
                   if use_cache
                   then s1\<lparr>cache_users_info := \<lparr>data = Some username_to_info, timestamp = current_time\<rparr>\<rparr>
                   else s1)))"

text \<open>\<^verbatim>\<open>get_users_info(use_cache=True)\<close>; the global \<^verbatim>\<open>ACCOUNT_API_KEY\<close> is the first argument.\<close>

definition get_users_info ::
  "string \<Rightarrow> bool \<Rightarrow> real \<Rightarrow> users_body http_result \<Rightarrow> state \<Rightarrow> (string \<rightharpoonup> user_info) \<times> state" where
  "get_users_info ACCOUNT_API_KEY use_cache current_time resp s =
     (if ACCOUNT_API_KEY = [] then (Map.empty, s)
      else
        (case (if use_cache then data (cache_users_info s) else None) of
           Some cached \<Rightarrow>
             if current_time - timestamp (cache_users_info s) < CACHE_TTL then (cached, s)
             else fetch_users_info use_cache current_time resp s
         | None \<Rightarrow> fetch_users_info use_cache current_time resp s))"

text \<open>
  The outcomes of the user-directory request on which the \<^verbatim>\<open>try\<close> block raises: the
  request fails, the body is not JSON, or some element of \<^verbatim>\<open>users\<close> is no dictionary.
\<close>

definition users_fetch_fails :: "users_body http_result \<Rightarrow> bool" where
  "users_fetch_fails resp =
     (case resp of
        RequestException \<Rightarrow> True
      | BodyNotJson \<Rightarrow> True
      | Body users_data \<Rightarrow>
          (case users_data of NoUsersList \<Rightarrow> False | Users us \<Rightarrow> NotADict \<in> set us))"

section \<open>Candidates\<close>

text \<open>
  The value read by \<^verbatim>\<open>int(c.get('last_update', 0))\<close>: the key is absent, or its value
  converts to an integer, or \<^verbatim>\<open>int\<close> raises on it.
\<close>

datatype update_field = Absent | IntLike int | NotIntLike

record candidate =
  cand_id :: "string option"
  cand_name :: "string option"
  cand_stage_name :: "string option"
  cand_last_update :: update_field

text \<open>The decoded body of the candidate list: the value under key \<^verbatim>\<open>candidates\<close>, if present.\<close>

type_synonym candidates_body = "candidate list option"

definition truthy :: "string option \<Rightarrow> bool" where
  "truthy v = (case v of None \<Rightarrow> False | Some x \<Rightarrow> x \<noteq> [])"



section \<open>Candidate listing and stage-name resolution\<close>

text \<open>
  The stage names of the candidates that carry one, before \<^verbatim>\<open>list(set(...))\<close>. The
  iteration order of a Python set is not fixed by the language, so \<^verbatim>\<open>list(set(...))\<close>
  is the parameter \<open>list_of_set\<close> of the functions below.
\<close>

definition stage_names_of :: "candidate list \<Rightarrow> string list" where
  "stage_names_of candidates =
     map (\<lambda>c. or_empty (cand_stage_name c)) (filter (\<lambda>c. truthy (cand_stage_name c)) candidates)"

text \<open>
  The computation of \<^verbatim>\<open>matching_stage_names\<close> in \<^verbatim>\<open>get_candidates_for_opening\<close>
  (identical in both files). \<open>None\<close> means that no stage filter applies.
\<close>

definition resolve_stage_names ::
  "scorer \<Rightarrow> (string list \<Rightarrow> string list) \<Rightarrow> string option \<Rightarrow> candidate list \<Rightarrow> state
     \<Rightarrow> string list option \<times> state" where
  "resolve_stage_names score list_of_set stage_name candidates s =
     (case stage_name of
        None \<Rightarrow> (None, s)
      | Some query \<Rightarrow>
          (let all_stage_names = list_of_set (stage_names_of candidates)
           in if all_stage_names = [] then (None, s)
              else if query \<in> set all_stage_names then (Some [query], s)
              else
                (let s1 = s\<lparr>trace := trace s @ [TfidfFit]\<rparr>
                 in case score query all_stage_names of
                      None \<Rightarrow> (None, s1)
                    | Some similarities \<Rightarrow>
                        (case argmax similarities of
                           None \<Rightarrow> (None, s1)
                         | Some best_idx \<Rightarrow>
                             if 3 / 10 \<le> similarities ! best_idx
                             then (if best_idx < length all_stage_names
                                   then (Some [all_stage_names ! best_idx], s1)
                                   else (None, s1))
                             else (None, s1)))))"

text \<open>The first loop (step 1): keep a candidate unless a stage filter excludes it.\<close>

definition filter_by_stage :: "string list option \<Rightarrow> candidate list \<Rightarrow> candidate list" where
  "filter_by_stage matching_stage_names candidates =
     (case matching_stage_names of
        None \<Rightarrow> candidates
      | Some names \<Rightarrow> filter (\<lambda>c. or_empty (cand_stage_name c) \<in> set names) candidates)"

text \<open>\<^verbatim>\<open>int(x)\<close> on a float truncates towards zero.\<close>

definition py_int :: "real \<Rightarrow> int" where
  "py_int x = (if 0 \<le> x then \<lfloor>x\<rfloor> else \<lceil>x\<rceil>)"

text \<open>
  \<^verbatim>\<open>int((datetime.now() - timedelta(days=7)).timestamp())\<close>, with \<open>now\<close> the epoch
  seconds of the current instant.
\<close>

definition seven_days_ago_ts :: "real \<Rightarrow> int" where
  "seven_days_ago_ts now = py_int (now - 7 * 86400)"

definition last_update_int :: "candidate \<Rightarrow> int option" where
  "last_update_int c =
     (case cand_last_update c of Absent \<Rightarrow> Some 0 | IntLike n \<Rightarrow> Some n | NotIntLike \<Rightarrow> None)"

text \<open>
  The list comprehension of the recency filter; \<^verbatim>\<open>int(...)\<close> raises on the first value it
  cannot convert, and nothing catches it.
\<close>

fun recent_only :: "int \<Rightarrow> candidate list \<Rightarrow> error + candidate list" where
  "recent_only ts [] = Inr []"
| "recent_only ts (c # cs) =
     (case last_update_int c of
        None \<Rightarrow> Inl ValueError
      | Some u \<Rightarrow>
          (case recent_only ts cs of
             Inl e \<Rightarrow> Inl e
           | Inr kept \<Rightarrow> Inr (if ts \<le> u then c # kept else kept)))"

text \<open>
  The part of \<^verbatim>\<open>get_candidates_for_opening\<close> that both files share: the stage names
  are resolved and the first loop builds \<^verbatim>\<open>filtered_candidates\<close>.
\<close>

definition stage_filter ::
  "scorer \<Rightarrow> (string list \<Rightarrow> string list) \<Rightarrow> string option \<Rightarrow> candidate list \<Rightarrow> state
     \<Rightarrow> candidate list \<times> state" where
  "stage_filter score list_of_set stage_name candidates s =
     (case resolve_stage_names score list_of_set stage_name candidates s of
        (matching_stage_names, s1) \<Rightarrow> (filter_by_stage matching_stage_names candidates, s1))"

text \<open>
  \<^verbatim>\<open>get_candidates_for_opening\<close> of \<^verbatim>\<open>server.py\<close>, up to the list
  \<^verbatim>\<open>filtered_candidates\<close> that the second loop turns, entry by entry and in order, into
  the returned records (CV text, reviews and form data are added there).
\<close>

definition get_candidates_for_opening_server ::
  "scorer \<Rightarrow> (string list \<Rightarrow> string list) \<Rightarrow> string option \<Rightarrow> real
     \<Rightarrow> candidates_body http_result \<Rightarrow> state \<Rightarrow> (error + candidate list) \<times> state" where
  "get_candidates_for_opening_server score list_of_set stage_name now resp s =
     (let s1 = http_post CandidateList s
      in case resp of
           RequestException \<Rightarrow> (Inl ConnectivityError, s1)
         | BodyNotJson \<Rightarrow> (Inl DecodeError, s1)
         | Body body \<Rightarrow>
             (case body of
                None \<Rightarrow> (Inr [], s1)
              | Some candidates \<Rightarrow>
                  if candidates = [] then (Inr [], s1)
                  else
                    (case stage_filter score list_of_set stage_name candidates s1 of
                       (filtered_candidates, s2) \<Rightarrow>
                         if 10 < length filtered_candidates
                         then (recent_only (seven_days_ago_ts now) filtered_candidates, s2)
                         else (Inr filtered_candidates, s2))))"

text \<open>
  \<^verbatim>\<open>get_candidates_for_opening\<close> of \<^verbatim>\<open>app.py\<close>, up to the same list; no step stands
  between the first loop and the second.
\<close>

definition get_candidates_for_opening_app ::
  "scorer \<Rightarrow> (string list \<Rightarrow> string list) \<Rightarrow> string option \<Rightarrow> real
     \<Rightarrow> candidates_body http_result \<Rightarrow> state \<Rightarrow> (error + candidate list) \<times> state" where
  "get_candidates_for_opening_app score list_of_set stage_name now resp s =
     (let s1 = http_post CandidateList s
      in case resp of
           RequestException \<Rightarrow> (Inl ConnectivityError, s1)
         | BodyNotJson \<Rightarrow> (Inl DecodeError, s1)
         | Body body \<Rightarrow>
             (case body of
                None \<Rightarrow> (Inr [], s1)
              | Some candidates \<Rightarrow>
                  if candidates = [] then (Inr [], s1)
                  else
                    (case stage_filter score list_of_set stage_name candidates s1 of
                       (filtered_candidates, s2) \<Rightarrow> (Inr filtered_candidates, s2))))"

section \<open>Assessment tests and the spreadsheet\<close>








section \<open>Concrete data\<close>

text \<open>The three active openings of the specification's scenarios, as the upstream returns them.\<close>

definition demo_raw :: "raw_opening list" where
  "demo_raw =
     [\<lparr>ro_id = ''101'', ro_name = ''Backend Engineer'', ro_status = Some ''10'', ro_content = None\<rparr>,
      \<lparr>ro_id = ''102'', ro_name = ''Senior Backend Engineer'', ro_status = Some ''10'', ro_content = None\<rparr>,
      \<lparr>ro_id = ''103'', ro_name = ''Data Analyst'', ro_status = Some ''10'', ro_content = None\<rparr>]"

definition demo_pool :: "opening_rec list" where
  "demo_pool =
     [\<lparr>opening_id = ''101'', opening_name = ''Backend Engineer''\<rparr>,
      \<lparr>opening_id = ''102'', opening_name = ''Senior Backend Engineer''\<rparr>,
      \<lparr>opening_id = ''103'', opening_name = ''Data Analyst''\<rparr>]"

text \<open>The state after a first successful read-through call at time 1000.\<close>

definition demo_state :: state where
  "demo_state =
     (http_post OpeningList initial_state)\<lparr>cache_openings := \<lparr>data = Some demo_pool, timestamp = 1000\<rparr>\<rparr>"

text \<open>One active opening whose name differs from the query \<open>engineer\<close> in letter case only.\<close>

definition engineer_raw :: "raw_opening list" where
  "engineer_raw = [\<lparr>ro_id = ''7'', ro_name = ''Engineer'', ro_status = Some ''10'', ro_content = None\<rparr>]"

definition engineer_pool :: "opening_rec list" where
  "engineer_pool = [\<lparr>opening_id = ''7'', opening_name = ''Engineer''\<rparr>]"

text \<open>
  Openings for the job-description fetcher: markup-free content of ten characters that is
  mostly padding, a closed opening, and an active opening with a short text.
\<close>

definition padded_raw :: "raw_opening list" where
  "padded_raw =
     [\<lparr>ro_id = ''9'', ro_name = ''Intern'', ro_status = Some ''10'', ro_content = Some ''hi        ''\<rparr>,
      \<lparr>ro_id = ''8'', ro_name = ''Closed'', ro_status = Some ''20'', ro_content = Some ''a long enough text''\<rparr>,
      \<lparr>ro_id = ''6'', ro_name = ''Short'', ro_status = Some ''10'', ro_content = Some ''too short''\<rparr>]"

text \<open>Four candidates of one opening; the third carries no stage name.\<close>

definition demo_candidates :: "candidate list" where
  "demo_candidates =
     [\<lparr>cand_id = Some ''c1'', cand_name = Some ''An'', cand_stage_name = Some ''Interview'',
        cand_last_update = IntLike 1000\<rparr>,
      \<lparr>cand_id = Some ''c2'', cand_name = Some ''Binh'', cand_stage_name = Some ''Offered'',
        cand_last_update = IntLike 2000\<rparr>,
      \<lparr>cand_id = Some ''c3'', cand_name = Some ''Chi'', cand_stage_name = None,
        cand_last_update = Absent\<rparr>,
      \<lparr>cand_id = Some ''c4'', cand_name = Some ''Dung'', cand_stage_name = Some ''Interview'',
        cand_last_update = IntLike 3000\<rparr>]"

text \<open>Eleven candidates without stage names, last updated at 0, 100000, ..., 1000000.\<close>

definition eleven_candidates :: "candidate list" where
  "eleven_candidates =
     map (\<lambda>n. \<lparr>cand_id = Some ''c'', cand_name = Some ''An'', cand_stage_name = None,
                cand_last_update = IntLike (n * 100000)\<rparr>)
       [0, 1, 2, 3, 4, 5, 6, 7, 8, 9, 10]"


text \<open>A user directory of two entries; the second has no username.\<close>

definition hoang_users :: "user_item list" where
  "hoang_users =
     [UserDict (Some ''hoang'') (Some ''Hoang Tran'') (Some ''Engineer''),
      UserDict None (Some ''Nobody'') None]"

text \<open>A state whose job-description entry, stored at time 1000, holds an empty list.\<close>

definition jd_stale_state :: state where
  "jd_stale_state = initial_state\<lparr>cache_job_descriptions := \<lparr>data = Some [], timestamp = 1000\<rparr>\<rparr>"



section \<open>Reference scorer\<close>

text \<open>
  Modelled from the spec: the similarity scorer of section 4.3 is the scikit-learn pipeline
  that the source imports, not code of the repository. The definitions below follow the
  specification (a TF-IDF space fitted on the pool only, the query transformed into it,
  cosine similarity against every pool vector, failure on an empty vocabulary) with the
  library's documented defaults: lower-casing, tokens of two or more word characters,
  smoothed inverse document frequency \<open>ln ((1 + n) / (1 + df)) + 1\<close>, rows of Euclidean
  norm one. Letters are ASCII. The general theorems hold for every scorer; this one gives
  concrete inputs their similarities.
\<close>

definition lower_char :: "char \<Rightarrow> char" where
  "lower_char c =
     (case map_of (zip ''ABCDEFGHIJKLMNOPQRSTUVWXYZ'' ''abcdefghijklmnopqrstuvwxyz'') c of
        Some l \<Rightarrow> l | None \<Rightarrow> c)"

definition word_char :: "char \<Rightarrow> bool" where
  "word_char c = (c \<in> set ''abcdefghijklmnopqrstuvwxyzABCDEFGHIJKLMNOPQRSTUVWXYZ0123456789_'')"

fun word_runs :: "string \<Rightarrow> string \<Rightarrow> string list" where
  "word_runs cur [] = [rev cur]"
| "word_runs cur (c # cs) =
     (if word_char c then word_runs (c # cur) cs else rev cur # word_runs [] cs)"

definition tokenize :: "string \<Rightarrow> string list" where
  "tokenize t = filter (\<lambda>w. 2 \<le> length w) (word_runs [] (map lower_char t))"

definition doc_freq :: "string list list \<Rightarrow> string \<Rightarrow> nat" where
  "doc_freq docs t = length (filter (\<lambda>d. t \<in> set d) docs)"

definition idf :: "string list list \<Rightarrow> string \<Rightarrow> real" where
  "idf docs t = ln ((1 + real (length docs)) / (1 + real (doc_freq docs t))) + 1"

definition norm2 :: "real list \<Rightarrow> real" where
  "norm2 v = sqrt (sum_list (map (\<lambda>x. x * x) v))"

definition normalize :: "real list \<Rightarrow> real list" where
  "normalize v = (if norm2 v = 0 then v else map (\<lambda>x. x / norm2 v) v)"

definition tfidf_row :: "string list \<Rightarrow> string list list \<Rightarrow> string list \<Rightarrow> real list" where
  "tfidf_row vocab docs d = normalize (map (\<lambda>t. real (count_list d t) * idf docs t) vocab)"

definition cosine :: "real list \<Rightarrow> real list \<Rightarrow> real" where
  "cosine u v = sum_list (map2 (*) (normalize u) (normalize v))"

definition tfidf_cosine :: scorer where
  "tfidf_cosine query pool =
     (let docs = map tokenize pool;
          vocab = remdups (concat docs)
      in if vocab = [] then None
         else Some (map (\<lambda>d. cosine (tfidf_row vocab docs (tokenize query)) (tfidf_row vocab docs d)) docs))"

section \<open>Properties of argmax\<close>

lemma argmax_scan_inv:
  assumes "length pre = i" "best_i < i" "pre ! best_i = best_v"
    and "\<forall>j<i. pre ! j \<le> best_v" and "\<forall>j<best_i. pre ! j < best_v"
  shows "argmax_scan best_i best_v i xs < length (pre @ xs) \<and>
         (\<forall>j<length (pre @ xs). (pre @ xs) ! j \<le> (pre @ xs) ! argmax_scan best_i best_v i xs) \<and>
         (\<forall>j<argmax_scan best_i best_v i xs. (pre @ xs) ! j < (pre @ xs) ! argmax_scan best_i best_v i xs)"
  using assms
proof (induction xs arbitrary: pre i best_i best_v)
  case Nil
  then show ?case by auto
next
  case (Cons x xs)
  show ?case
  proof (cases "best_v < x")
    case True
    have a: "length (pre @ [x]) = Suc i" using Cons.prems by simp
    have b: "(pre @ [x]) ! i = x" using Cons.prems by (simp add: nth_append)
    have c: "\<forall>j<Suc i. (pre @ [x]) ! j \<le> x"
      using Cons.prems True by (auto simp: nth_append less_Suc_eq)
    have d: "\<forall>j<i. (pre @ [x]) ! j < x"
      using Cons.prems True by (auto simp: nth_append)
    from Cons.IH[of "pre @ [x]" "Suc i" i x, OF a _ b c d] True
    show ?thesis by simp
  next
    case False
    have a: "length (pre @ [x]) = Suc i" using Cons.prems by simp
    have b: "(pre @ [x]) ! best_i = best_v" using Cons.prems by (simp add: nth_append)
    have c: "\<forall>j<Suc i. (pre @ [x]) ! j \<le> best_v"
      using Cons.prems False by (auto simp: nth_append less_Suc_eq)
    have d: "\<forall>j<best_i. (pre @ [x]) ! j < best_v"
      using Cons.prems by (auto simp: nth_append)
    from Cons.IH[of "pre @ [x]" "Suc i" best_i best_v, OF a _ b c d] False Cons.prems(2)
    show ?thesis by simp
  qed
qed

lemma argmax_None: "argmax xs = None \<longleftrightarrow> xs = []"
  by (simp add: argmax_def split: list.splits)

lemma argmax_Some:
  assumes "argmax xs = Some i"
  shows "i < length xs \<and> (\<forall>j<length xs. xs ! j \<le> xs ! i) \<and> (\<forall>j<i. xs ! j < xs ! i)"
proof -
  from assms obtain x rest where xs: "xs = x # rest" and i: "i = argmax_scan 0 x 1 rest"
    by (auto simp: argmax_def split: list.splits)
  have "argmax_scan 0 x 1 rest < length ([x] @ rest) \<and>
         (\<forall>j<length ([x] @ rest). ([x] @ rest) ! j \<le> ([x] @ rest) ! argmax_scan 0 x 1 rest) \<and>
         (\<forall>j<argmax_scan 0 x 1 rest. ([x] @ rest) ! j < ([x] @ rest) ! argmax_scan 0 x 1 rest)"
    by (rule argmax_scan_inv) (simp_all add: less_Suc_eq)
  then show ?thesis unfolding xs i by simp
qed

lemma argmax_Max:
  assumes "argmax xs = Some i"
  shows "xs ! i = Max (set xs)"
proof -
  have i: "i < length xs" and le: "\<forall>j<length xs. xs ! j \<le> xs ! i"
    using argmax_Some[OF assms] by blast+
  have "xs ! i \<in> set xs" using i by simp
  moreover have "\<And>y. y \<in> set xs \<Longrightarrow> y \<le> xs ! i"
    using le by (metis in_set_conv_nth)
  ultimately show ?thesis by (intro Max_eqI[symmetric]) simp_all
qed

section \<open>Effects of the fetchers\<close>

lemma fits_http_post: "fits (http_post e s) = fits s"
  by (simp add: fits_def http_post_def)

lemma fetch_openings_fits:
  "fetch_openings use_cache current_time resp s = (r, s1) \<Longrightarrow> fits s1 = fits s"
  by (auto simp: fetch_openings_def Let_def fits_def http_post_def split: http_result.splits if_splits)

lemma get_base_openings_fits:
  "get_base_openings api_key use_cache current_time resp s = (r, s1) \<Longrightarrow> fits s1 = fits s"
  by (auto simp: get_base_openings_def fetch_openings_fits split: if_splits option.splits)

lemma demo_fetch:
  "get_base_openings ''key'' True 1000 (Body (Some demo_raw)) initial_state = (Inr demo_pool, demo_state)"
  by (simp add: get_base_openings_def fetch_openings_def initial_state_def empty_entry_def
      demo_raw_def demo_pool_def demo_state_def active_openings_def Let_def)

lemma engineer_fetch:
  "get_base_openings ''key'' True 1000 (Body (Some engineer_raw)) initial_state =
     (Inr engineer_pool,
      (http_post OpeningList initial_state)\<lparr>cache_openings := \<lparr>data = Some engineer_pool, timestamp = 1000\<rparr>\<rparr>)"
  by (simp add: get_base_openings_def fetch_openings_def initial_state_def empty_entry_def
      engineer_raw_def engineer_pool_def active_openings_def Let_def)

section \<open>The reference scorer on concrete names\<close>

lemma tokenize_Engineer: "tokenize ''Engineer'' = [''engineer'']"
  by (simp add: tokenize_def lower_char_def word_char_def)

lemma tokenize_engineer: "tokenize ''engineer'' = [''engineer'']"
  by (simp add: tokenize_def lower_char_def word_char_def)

lemma tfidf_cosine_engineer: "tfidf_cosine ''engineer'' [''Engineer''] = Some [1]"
  by (simp add: tfidf_cosine_def tokenize_Engineer tokenize_engineer cosine_def tfidf_row_def
      normalize_def norm2_def idf_def doc_freq_def)

lemma engineer_resolution:
  "fst (find_opening_id_by_name tfidf_cosine ''engineer'' ''key'' (1/2) 1000
          (Body (Some engineer_raw)) initial_state) = Inr (Some ''7'', Some ''Engineer'', 1)"
  by (simp add: find_opening_id_by_name_def engineer_fetch)
     (simp add: engineer_pool_def is_exact_def tfidf_cosine_engineer argmax_def)

section \<open>The branches of opening resolution\<close>


lemma find_opening_empty:
  "get_base_openings api_key True current_time resp s = (Inr [], s1) \<Longrightarrow>
   find_opening_id_by_name score query_name api_key similarity_threshold current_time resp s =
     (Inr (None, None, 0), s1)"
  by (simp add: find_opening_id_by_name_def)

lemma find_opening_exact:
  "get_base_openings api_key True current_time resp s = (Inr pool, s1) \<Longrightarrow>
   find (is_exact query_name) pool = Some m \<Longrightarrow>
   find_opening_id_by_name score query_name api_key similarity_threshold current_time resp s =
     (Inr (Some (opening_id m), Some (opening_name m), 1), s1)"
  by (cases pool) (simp_all add: find_opening_id_by_name_def)

lemma find_opening_scorer_raises:
  "get_base_openings api_key True current_time resp s = (Inr pool, s1) \<Longrightarrow> pool \<noteq> [] \<Longrightarrow>
   find (is_exact query_name) pool = None \<Longrightarrow>
   score query_name (map opening_name pool) = None \<Longrightarrow>
   find_opening_id_by_name score query_name api_key similarity_threshold current_time resp s =
     (Inr (None, None, 0), s1\<lparr>trace := trace s1 @ [TfidfFit]\<rparr>)"
  by (simp add: find_opening_id_by_name_def)

lemma find_opening_argmax_raises:
  "get_base_openings api_key True current_time resp s = (Inr pool, s1) \<Longrightarrow> pool \<noteq> [] \<Longrightarrow>
   find (is_exact query_name) pool = None \<Longrightarrow>
   score query_name (map opening_name pool) = Some sims \<Longrightarrow> argmax sims = None \<Longrightarrow>
   find_opening_id_by_name score query_name api_key similarity_threshold current_time resp s =
     (Inr (None, None, 0), s1\<lparr>trace := trace s1 @ [TfidfFit]\<rparr>)"
  by (simp add: find_opening_id_by_name_def)

lemma find_opening_fuzzy:
  "get_base_openings api_key True current_time resp s = (Inr pool, s1) \<Longrightarrow> pool \<noteq> [] \<Longrightarrow>
   find (is_exact query_name) pool = None \<Longrightarrow>
   score query_name (map opening_name pool) = Some sims \<Longrightarrow> argmax sims = Some i \<Longrightarrow>
   find_opening_id_by_name score query_name api_key similarity_threshold current_time resp s =
     (if similarity_threshold \<le> sims ! i
      then (if i < length pool
            then Inr (Some (opening_id (pool ! i)), Some (opening_name (pool ! i)), sims ! i)
            else Inr (None, None, 0))
      else Inr (None, None, sims ! i),
      s1\<lparr>trace := trace s1 @ [TfidfFit]\<rparr>)"
  by (simp add: find_opening_id_by_name_def Let_def)

section \<open>Caught errors in candidate and stage resolution\<close>


section \<open>Counting upstream requests\<close>

lemma posts_http_post: "posts e (http_post e' s) = (if e = e' then Suc (posts e s) else posts e s)"
  by (simp add: posts_def http_post_def)

lemma posts_cache_update [simp]:
  "posts e (s\<lparr>cache_openings := c1\<rparr>) = posts e s"
  "posts e (s\<lparr>cache_job_descriptions := c2\<rparr>) = posts e s"
  "posts e (s\<lparr>cache_users_info := c3\<rparr>) = posts e s"
  by (simp_all add: posts_def)

lemma cache_http_post [simp]:
  "cache_openings (http_post e s) = cache_openings s"
  "cache_job_descriptions (http_post e s) = cache_job_descriptions s"
  "cache_users_info (http_post e s) = cache_users_info s"
  by (simp_all add: http_post_def)

lemma fetch_openings_posts:
  "posts OpeningList (snd (fetch_openings use_cache t resp s)) = Suc (posts OpeningList s)"
  by (simp add: fetch_openings_def Let_def posts_http_post split: http_result.split)

lemma fetch_job_descriptions_posts:
  "posts OpeningList (snd (fetch_job_descriptions get_text use_cache t resp s)) = Suc (posts OpeningList s)"
  by (simp add: fetch_job_descriptions_def Let_def posts_http_post split: http_result.split option.split)

lemma fetch_users_info_posts:
  "posts UsersDirectory (snd (fetch_users_info use_cache t resp s)) = Suc (posts UsersDirectory s)"
  by (simp add: fetch_users_info_def Let_def posts_http_post split: http_result.split option.split)

section \<open>Cache hits and misses\<close>

lemma openings_hit:
  "api_key \<noteq> [] \<Longrightarrow> data (cache_openings s) = Some d \<Longrightarrow>
   t - timestamp (cache_openings s) < CACHE_TTL \<Longrightarrow>
   get_base_openings api_key True t resp s = (Inr d, s)"
  by (simp add: get_base_openings_def)

lemma openings_miss:
  "api_key \<noteq> [] \<Longrightarrow>
   \<not> use_cache \<or> data (cache_openings s) = None \<or> CACHE_TTL \<le> t - timestamp (cache_openings s) \<Longrightarrow>
   get_base_openings api_key use_cache t resp s = fetch_openings use_cache t resp s"
  by (auto simp: get_base_openings_def split: option.split)

lemma job_descriptions_hit:
  "api_key \<noteq> [] \<Longrightarrow> data (cache_job_descriptions s) = Some d \<Longrightarrow>
   t - timestamp (cache_job_descriptions s) < CACHE_TTL \<Longrightarrow>
   get_job_descriptions get_text api_key True t resp s = (Inr d, s)"
  by (simp add: get_job_descriptions_def)

lemma job_descriptions_miss:
  "api_key \<noteq> [] \<Longrightarrow>
   \<not> use_cache \<or> data (cache_job_descriptions s) = None
     \<or> CACHE_TTL \<le> t - timestamp (cache_job_descriptions s) \<Longrightarrow>
   get_job_descriptions get_text api_key use_cache t resp s =
     fetch_job_descriptions get_text use_cache t resp s"
  by (auto simp: get_job_descriptions_def split: option.split)

lemma users_info_hit:
  "key \<noteq> [] \<Longrightarrow> data (cache_users_info s) = Some d \<Longrightarrow>
   t - timestamp (cache_users_info s) < CACHE_TTL \<Longrightarrow>
   get_users_info key True t resp s = (d, s)"
  by (simp add: get_users_info_def)

lemma users_info_miss:
  "key \<noteq> [] \<Longrightarrow>
   \<not> use_cache \<or> data (cache_users_info s) = None \<or> CACHE_TTL \<le> t - timestamp (cache_users_info s) \<Longrightarrow>
   get_users_info key use_cache t resp s = fetch_users_info use_cache t resp s"
  by (auto simp: get_users_info_def split: option.split)

section \<open>When the user loop raises\<close>

lemma build_user_map_None_iff:
  "build_user_map us m = None \<longleftrightarrow> NotADict \<in> set us"
proof (induction us arbitrary: m)
  case Nil
  then show ?case by simp
next
  case (Cons u us)
  show ?case
  proof (cases u)
    case NotADict
    then show ?thesis by simp
  next
    case (UserDict username name title)
    with Cons.IH show ?thesis by (simp split: option.split)
  qed
qed

section \<open>Freshness of a populated entry\<close>

lemma openings_ttl:
  assumes key: "api_key \<noteq> []"
    and call: "get_base_openings api_key True t0 resp s = (Inr d, s1)"
    and went: "posts OpeningList s1 = Suc (posts OpeningList s)"
  shows "(t1 < t0 + CACHE_TTL \<longrightarrow> get_base_openings api_key True t1 resp' s1 = (Inr d, s1)) \<and>
         (t0 + CACHE_TTL \<le> t1 \<longrightarrow>
            posts OpeningList (snd (get_base_openings api_key True t1 resp' s1)) =
              Suc (Suc (posts OpeningList s)))"
proof -
  have miss: "data (cache_openings s) = None \<or> CACHE_TTL \<le> t0 - timestamp (cache_openings s)"
  proof (rule ccontr)
    assume "\<not> ?thesis"
    then obtain c where "data (cache_openings s) = Some c" "t0 - timestamp (cache_openings s) < CACHE_TTL"
      by (cases "data (cache_openings s)") auto
    from openings_hit[OF key this] call have "s1 = s" by simp
    with went show False by simp
  qed
  then have "fetch_openings True t0 resp s = (Inr d, s1)"
    using openings_miss[OF key, of True s t0 resp] call by simp
  then have entry: "cache_openings s1 = \<lparr>data = Some d, timestamp = t0\<rparr>"
    by (auto simp: fetch_openings_def Let_def split: http_result.splits)
  show ?thesis
  proof (intro conjI impI)
    assume "t1 < t0 + CACHE_TTL"
    then have "t1 - timestamp (cache_openings s1) < CACHE_TTL" using entry by simp
    then show "get_base_openings api_key True t1 resp' s1 = (Inr d, s1)"
      using openings_hit[OF key] entry by simp
  next
    assume "t0 + CACHE_TTL \<le> t1"
    then have "CACHE_TTL \<le> t1 - timestamp (cache_openings s1)" using entry by simp
    then have "get_base_openings api_key True t1 resp' s1 = fetch_openings True t1 resp' s1"
      using openings_miss[OF key] by simp
    then show "posts OpeningList (snd (get_base_openings api_key True t1 resp' s1)) =
              Suc (Suc (posts OpeningList s))"
      using fetch_openings_posts went by simp
  qed
qed

lemma job_descriptions_ttl:
  assumes key: "api_key \<noteq> []"
    and entry: "cache_job_descriptions s1 = \<lparr>data = Some d, timestamp = t0\<rparr>"
    and went: "posts OpeningList s1 = Suc (posts OpeningList s)"
  shows "(t1 < t0 + CACHE_TTL \<longrightarrow> get_job_descriptions get_text api_key True t1 resp' s1 = (Inr d, s1)) \<and>
         (t0 + CACHE_TTL \<le> t1 \<longrightarrow>
            posts OpeningList (snd (get_job_descriptions get_text api_key True t1 resp' s1)) =
              Suc (Suc (posts OpeningList s)))"
proof (intro conjI impI)
  assume "t1 < t0 + CACHE_TTL"
  then have "t1 - timestamp (cache_job_descriptions s1) < CACHE_TTL" using entry by simp
  then show "get_job_descriptions get_text api_key True t1 resp' s1 = (Inr d, s1)"
    using job_descriptions_hit[OF key] entry by simp
next
  assume "t0 + CACHE_TTL \<le> t1"
  then have "CACHE_TTL \<le> t1 - timestamp (cache_job_descriptions s1)" using entry by simp
  then have "get_job_descriptions get_text api_key True t1 resp' s1 =
      fetch_job_descriptions get_text True t1 resp' s1"
    using job_descriptions_miss[OF key] by simp
  then show "posts OpeningList (snd (get_job_descriptions get_text api_key True t1 resp' s1)) =
              Suc (Suc (posts OpeningList s))"
    using fetch_job_descriptions_posts went by simp
qed

lemma users_info_ttl:
  assumes key: "key \<noteq> []"
    and entry: "cache_users_info s1 = \<lparr>data = Some d, timestamp = t0\<rparr>"
    and went: "posts UsersDirectory s1 = Suc (posts UsersDirectory s)"
  shows "(t1 < t0 + CACHE_TTL \<longrightarrow> get_users_info key True t1 resp' s1 = (d, s1)) \<and>
         (t0 + CACHE_TTL \<le> t1 \<longrightarrow>
            posts UsersDirectory (snd (get_users_info key True t1 resp' s1)) =
              Suc (Suc (posts UsersDirectory s)))"
proof (intro conjI impI)
  assume "t1 < t0 + CACHE_TTL"
  then have "t1 - timestamp (cache_users_info s1) < CACHE_TTL" using entry by simp
  then show "get_users_info key True t1 resp' s1 = (d, s1)"
    using users_info_hit[OF key] entry by simp
next
  assume "t0 + CACHE_TTL \<le> t1"
  then have "CACHE_TTL \<le> t1 - timestamp (cache_users_info s1)" using entry by simp
  then have "get_users_info key True t1 resp' s1 = fetch_users_info True t1 resp' s1"
    using users_info_miss[OF key] by simp
  then show "posts UsersDirectory (snd (get_users_info key True t1 resp' s1)) =
              Suc (Suc (posts UsersDirectory s))"
    using fetch_users_info_posts went by simp
qed

section \<open>Calls that bypass the cache\<close>

lemma fetch_openings_bypass:
  "snd (fetch_openings False t resp s) = http_post OpeningList s"
  by (simp add: fetch_openings_def Let_def split: http_result.split)

lemma fetch_job_descriptions_bypass:
  "snd (fetch_job_descriptions get_text False t resp s) = http_post OpeningList s"
  by (simp add: fetch_job_descriptions_def Let_def split: http_result.split option.split)

lemma fetch_users_info_bypass:
  "snd (fetch_users_info False t resp s) = http_post UsersDirectory s"
  by (simp add: fetch_users_info_def Let_def split: http_result.split option.split)

lemma fetch_openings_value:
  "fst (fetch_openings use_cache t (Body (Some os)) s) = Inr (active_openings os)"
  by (simp add: fetch_openings_def Let_def)

lemma fetch_job_descriptions_value:
  "fst (fetch_job_descriptions get_text use_cache t (Body (Some os)) s) = Inr (jd_results get_text os)"
  by (simp add: fetch_job_descriptions_def Let_def)

lemma fetch_users_info_value:
  "build_user_map us Map.empty = Some m \<Longrightarrow>
   fst (fetch_users_info use_cache t (Body (Users us)) s) = m"
  by (simp add: fetch_users_info_def Let_def)

section \<open>A failed user-directory request\<close>


section \<open>The job-description loop\<close>

lemma jd_results_map_filter:
  "jd_results get_text os =
     map (\<lambda>op. \<lparr>jd_id = ro_id op, jd_name = ro_name op,
                 job_description = strip (get_text (or_empty (ro_content op))),
                 html_content = or_empty (ro_content op)\<rparr>)
       (filter (\<lambda>op. ro_status op = Some ''10'' \<and> 10 \<le> length (get_text (or_empty (ro_content op)))) os)"
  by (induction os) (simp_all add: Let_def or_empty_def split: option.split)

lemma padded_results:
  "jd_results (\<lambda>h. h) padded_raw =
     [\<lparr>jd_id = ''9'', jd_name = ''Intern'', job_description = ''hi'', html_content = ''hi        ''\<rparr>]"
  by (simp add: padded_raw_def Let_def strip_def isspace_def)

section \<open>The stage filter, branch by branch\<close>

lemma stage_names_nonempty: "q \<in> set (stage_names_of candidates) \<Longrightarrow> q \<noteq> []"
  by (auto simp: stage_names_of_def truthy_def or_empty_def split: option.splits)

lemma filter_single_stage:
  "q \<noteq> [] \<Longrightarrow> filter_by_stage (Some [q]) candidates = filter (\<lambda>c. cand_stage_name c = Some q) candidates"
  unfolding filter_by_stage_def
  by (auto simp: or_empty_def split: option.splits intro!: filter_cong)

lemma stage_filter_none:
  "fst (stage_filter score list_of_set None candidates s) = candidates"
  by (simp add: stage_filter_def resolve_stage_names_def filter_by_stage_def)

lemma stage_filter_no_names:
  "list_of_set (stage_names_of candidates) = [] \<Longrightarrow>
   fst (stage_filter score list_of_set stage_name candidates s) = candidates"
  by (simp add: stage_filter_def resolve_stage_names_def filter_by_stage_def split: option.split)

lemma stage_filter_exact:
  assumes "query \<in> set (list_of_set (stage_names_of candidates))"
  shows "fst (stage_filter score list_of_set (Some query) candidates s) =
           filter_by_stage (Some [query]) candidates"
proof -
  from assms have "list_of_set (stage_names_of candidates) \<noteq> []" by auto
  with assms show ?thesis
    by (simp add: stage_filter_def resolve_stage_names_def Let_def)
qed

lemma stage_filter_scorer_raises:
  assumes "query \<notin> set (list_of_set (stage_names_of candidates))"
    and "score query (list_of_set (stage_names_of candidates)) = None"
  shows "fst (stage_filter score list_of_set (Some query) candidates s) = candidates"
  using assms
  by (simp add: stage_filter_def resolve_stage_names_def Let_def filter_by_stage_def)

lemma stage_filter_fuzzy:
  assumes "query \<notin> set (list_of_set (stage_names_of candidates))"
    and "list_of_set (stage_names_of candidates) \<noteq> []"
    and "score query (list_of_set (stage_names_of candidates)) = Some sims"
  shows "fst (stage_filter score list_of_set (Some query) candidates s) =
           (case argmax sims of
              None \<Rightarrow> candidates
            | Some i \<Rightarrow>
                if 3 / 10 \<le> sims ! i \<and> i < length (list_of_set (stage_names_of candidates))
                then filter_by_stage (Some [list_of_set (stage_names_of candidates) ! i]) candidates
                else candidates)"
  using assms
  by (simp add: stage_filter_def resolve_stage_names_def Let_def filter_by_stage_def split: option.split)

lemma app_listing:
  "candidates \<noteq> [] \<Longrightarrow>
   fst (get_candidates_for_opening_app score list_of_set stage_name now (Body (Some candidates)) s) =
     Inr (fst (stage_filter score list_of_set stage_name candidates (http_post CandidateList s)))"
  by (simp add: get_candidates_for_opening_app_def Let_def split: prod.split)

lemma server_listing:
  "candidates \<noteq> [] \<Longrightarrow>
   fst (get_candidates_for_opening_server score list_of_set stage_name now (Body (Some candidates)) s) =
     (let filtered_candidates =
            fst (stage_filter score list_of_set stage_name candidates (http_post CandidateList s))
      in if 10 < length filtered_candidates
         then recent_only (seven_days_ago_ts now) filtered_candidates
         else Inr filtered_candidates)"
  by (simp add: get_candidates_for_opening_server_def Let_def split: prod.split)

section \<open>The recency filter\<close>

lemma recent_only_ok:
  "\<forall>c\<in>set cs. last_update_int c \<noteq> None \<Longrightarrow>
   recent_only ts cs = Inr (filter (\<lambda>c. \<exists>u. last_update_int c = Some u \<and> ts \<le> u) cs)"
  by (induction cs) auto

lemma recent_only_bad:
  "\<exists>c\<in>set cs. last_update_int c = None \<Longrightarrow> recent_only ts cs = Inl ValueError"
proof (induction cs)
  case Nil
  then show ?case by simp
next
  case (Cons c cs)
  show ?case
  proof (cases "last_update_int c")
    case None
    then show ?thesis by simp
  next
    case (Some u)
    with Cons.prems have "\<exists>c\<in>set cs. last_update_int c = None" by auto
    then have "recent_only ts cs = Inl ValueError" by (rule Cons.IH)
    with Some show ?thesis by simp
  qed
qed

section \<open>A read-through call on a cold or expired entry\<close>

lemma openings_first_call:
  assumes key: "api_key \<noteq> []"
    and miss: "data (cache_openings s) = None \<or> CACHE_TTL \<le> t0 - timestamp (cache_openings s)"
  shows "get_base_openings api_key True t0 (Body body) s =
           (Inr (active_openings (case body of None \<Rightarrow> [] | Some os \<Rightarrow> os)),
            (http_post OpeningList s)\<lparr>cache_openings :=
               \<lparr>data = Some (active_openings (case body of None \<Rightarrow> [] | Some os \<Rightarrow> os)),
                timestamp = t0\<rparr>\<rparr>)"
  using openings_miss[OF key, of True s t0 "Body body"] miss
  by (simp add: fetch_openings_def Let_def)

lemma job_descriptions_first_call:
  assumes key: "api_key \<noteq> []"
    and miss: "data (cache_job_descriptions s) = None
                 \<or> CACHE_TTL \<le> t0 - timestamp (cache_job_descriptions s)"
  shows "get_job_descriptions get_text api_key True t0 (Body (Some os)) s =
           (Inr (jd_results get_text os),
            (http_post OpeningList s)\<lparr>cache_job_descriptions :=
               \<lparr>data = Some (jd_results get_text os), timestamp = t0\<rparr>\<rparr>)"
  using job_descriptions_miss[OF key, of True s t0 get_text "Body (Some os)"] miss
  by (simp add: fetch_job_descriptions_def Let_def)

lemma users_info_first_call:
  assumes key: "key \<noteq> []"
    and miss: "data (cache_users_info s) = None \<or> CACHE_TTL \<le> t0 - timestamp (cache_users_info s)"
    and ok: "\<not> users_fetch_fails resp"
  shows "\<exists>m. get_users_info key True t0 resp s =
           (m, (http_post UsersDirectory s)\<lparr>cache_users_info := \<lparr>data = Some m, timestamp = t0\<rparr>\<rparr>) \<and>
           (resp = Body NoUsersList \<longrightarrow> m = Map.empty) \<and>
           (\<forall>us. resp = Body (Users us) \<longrightarrow> build_user_map us Map.empty = Some m)"
proof -
  have eq: "get_users_info key True t0 resp s = fetch_users_info True t0 resp s"
    using users_info_miss[OF key, of True s t0 resp] miss by blast
  from ok obtain b where b: "resp = Body b"
    by (cases resp) (auto simp: users_fetch_fails_def)
  show ?thesis
  proof (cases b)
    case NoUsersList
    with b eq show ?thesis by (simp add: fetch_users_info_def Let_def)
  next
    case (Users us)
    with ok b have "NotADict \<notin> set us" by (simp add: users_fetch_fails_def)
    then obtain m where m: "build_user_map us Map.empty = Some m"
      using build_user_map_None_iff[of us Map.empty] by (cases "build_user_map us Map.empty") auto
    with b Users eq show ?thesis by (simp add: fetch_users_info_def Let_def)
  qed
qed

section \<open>What a bypassing call does\<close>

lemma bypass_always_refetches:
  assumes key: "api_key \<noteq> []" and akey: "ACCOUNT_API_KEY \<noteq> []"
  shows "(posts OpeningList (snd (get_base_openings api_key False t r1 s)) = Suc (posts OpeningList s) \<and>
          cache_openings (snd (get_base_openings api_key False t r1 s)) = cache_openings s \<and>
          fst (get_base_openings api_key False t (Body (Some os)) s) = Inr (active_openings os)) \<and>
         (posts OpeningList (snd (get_job_descriptions get_text api_key False t r1 s)) =
            Suc (posts OpeningList s) \<and>
          cache_job_descriptions (snd (get_job_descriptions get_text api_key False t r1 s)) =
            cache_job_descriptions s \<and>
          fst (get_job_descriptions get_text api_key False t (Body (Some os)) s) =
            Inr (jd_results get_text os)) \<and>
         (posts UsersDirectory (snd (get_users_info ACCOUNT_API_KEY False t r3 s)) =
            Suc (posts UsersDirectory s) \<and>
          cache_users_info (snd (get_users_info ACCOUNT_API_KEY False t r3 s)) = cache_users_info s \<and>
          (build_user_map us Map.empty = Some m \<longrightarrow>
             fst (get_users_info ACCOUNT_API_KEY False t (Body (Users us)) s) = m))"
proof -
  have o: "\<And>r. get_base_openings api_key False t r s = fetch_openings False t r s"
    using openings_miss[OF key, of False] by simp
  have j: "\<And>r. get_job_descriptions get_text api_key False t r s =
      fetch_job_descriptions get_text False t r s"
    using job_descriptions_miss[OF key, of False] by simp
  have u: "\<And>r. get_users_info ACCOUNT_API_KEY False t r s = fetch_users_info False t r s"
    using users_info_miss[OF akey, of False] by simp
  show ?thesis
    unfolding o j u
    by (simp add: fetch_openings_bypass fetch_job_descriptions_bypass fetch_users_info_bypass
        fetch_openings_value fetch_job_descriptions_value fetch_users_info_value posts_http_post)
qed

section \<open>A scorer that raises, and requests that fail\<close>







section \<open>Exact match (C1)\<close>

text \<open>
  Claim C1. Whenever the pool that \<^verbatim>\<open>get_base_openings\<close> hands to opening resolution holds
  an entry whose id or whose name equals the query, \<^verbatim>\<open>find_opening_id_by_name\<close> returns
  the id and name of the first such entry in pool order with score 1.0, for every scorer
  and every threshold, and the run adds no vectorizer event to the trace: the scorer is
  not invoked.
\<close>

theorem exact_match_short_circuits:
  assumes fetch: "get_base_openings api_key True current_time resp s = (Inr pool, s1)"
    and ex: "\<exists>op\<in>set pool. opening_id op = query_name \<or> opening_name op = query_name"
  shows "\<exists>i<length pool.
           (opening_id (pool ! i) = query_name \<or> opening_name (pool ! i) = query_name) \<and>
           (\<forall>j<i. opening_id (pool ! j) \<noteq> query_name \<and> opening_name (pool ! j) \<noteq> query_name) \<and>
           find_opening_id_by_name score query_name api_key similarity_threshold current_time resp s =
             (Inr (Some (opening_id (pool ! i)), Some (opening_name (pool ! i)), 1), s1) \<and>
           fits s1 = fits s"
proof -
  from ex have "find (is_exact query_name) pool \<noteq> None"
    by (auto simp: find_None_iff is_exact_def)
  then obtain m where m: "find (is_exact query_name) pool = Some m" by blast
  then obtain i where i: "i < length pool" "is_exact query_name (pool ! i)" "m = pool ! i"
    "\<forall>j<i. \<not> is_exact query_name (pool ! j)"
    unfolding find_Some_iff by blast
  from i(1) have ne: "pool \<noteq> []" by auto
  have res: "find_opening_id_by_name score query_name api_key similarity_threshold current_time resp s =
             (Inr (Some (opening_id (pool ! i)), Some (opening_name (pool ! i)), 1), s1)"
    using fetch m ne i(3) by (simp add: find_opening_id_by_name_def)
  have "fits s1 = fits s" using fetch by (rule get_base_openings_fits)
  with i res show ?thesis unfolding is_exact_def by blast
qed

theorem exact_match_short_circuits_witness:
  "find_opening_id_by_name (\<lambda>q pool. None) ''Backend Engineer'' ''key'' (1/2) 1000
      (Body (Some demo_raw)) initial_state =
     (Inr (Some ''101'', Some ''Backend Engineer'', 1),
      demo_state)"
proof -
  have ex: "\<exists>op\<in>set demo_pool. opening_id op = ''Backend Engineer'' \<or> opening_name op = ''Backend Engineer''"
    by (simp add: demo_pool_def)
  from exact_match_short_circuits[OF demo_fetch ex, of "\<lambda>q pool. None" "1/2"]
  obtain i where i: "i < length demo_pool"
    "\<forall>j<i. opening_id (demo_pool ! j) \<noteq> ''Backend Engineer'' \<and> opening_name (demo_pool ! j) \<noteq> ''Backend Engineer''"
    and r: "find_opening_id_by_name (\<lambda>q pool. None) ''Backend Engineer'' ''key'' (1/2) 1000
      (Body (Some demo_raw)) initial_state =
      (Inr (Some (opening_id (demo_pool ! i)), Some (opening_name (demo_pool ! i)), 1),
       demo_state)"
    by blast
  have "i = 0"
  proof (rule ccontr)
    assume "i \<noteq> 0"
    then have "0 < i" by simp
    with i(2) have "opening_name (demo_pool ! 0) \<noteq> ''Backend Engineer''" by blast
    then show False by (simp add: demo_pool_def)
  qed
  with r show ?thesis by (simp add: demo_pool_def)
qed

section \<open>Threshold gate of the fuzzy fallback (C2)\<close>

text \<open>
  Claim C2. For a non-empty pool without an exact match on which the scorer returns one
  similarity per pool entry, let the best score be the maximum of these similarities. If
  the best score reaches the threshold, \<^verbatim>\<open>find_opening_id_by_name\<close> returns the id and the
  name of the first pool entry that achieves it, together with the best score; otherwise
  it returns no id and no name, and still the best score.
\<close>

theorem fuzzy_threshold_gate:
  assumes fetch: "get_base_openings api_key True current_time resp s = (Inr pool, s1)"
    and ne: "pool \<noteq> []"
    and noexact: "\<forall>op\<in>set pool. opening_id op \<noteq> query_name \<and> opening_name op \<noteq> query_name"
    and sc: "score query_name (map opening_name pool) = Some sims"
    and len: "length sims = length pool"
  shows "(similarity_threshold \<le> Max (set sims) \<longrightarrow>
            (\<exists>i<length pool. sims ! i = Max (set sims) \<and> (\<forall>j<i. sims ! j < Max (set sims)) \<and>
               fst (find_opening_id_by_name score query_name api_key similarity_threshold current_time resp s) =
                 Inr (Some (opening_id (pool ! i)), Some (opening_name (pool ! i)), Max (set sims)))) \<and>
         (Max (set sims) < similarity_threshold \<longrightarrow>
            fst (find_opening_id_by_name score query_name api_key similarity_threshold current_time resp s) =
              Inr (None, None, Max (set sims)))"
proof -
  from noexact have nf: "find (is_exact query_name) pool = None"
    by (auto simp: find_None_iff is_exact_def)
  from ne len have "sims \<noteq> []" by auto
  then obtain i where am: "argmax sims = Some i"
    using argmax_None by (cases "argmax sims") auto
  have i: "i < length sims" and first: "\<forall>j<i. sims ! j < sims ! i"
    using argmax_Some[OF am] by blast+
  have mx: "sims ! i = Max (set sims)" by (rule argmax_Max[OF am])
  have run: "fst (find_opening_id_by_name score query_name api_key similarity_threshold current_time resp s) =
      (if similarity_threshold \<le> sims ! i
       then Inr (Some (opening_id (pool ! i)), Some (opening_name (pool ! i)), sims ! i)
       else Inr (None, None, sims ! i))"
    using fetch ne nf sc am i len by (simp add: find_opening_id_by_name_def Let_def)
  show ?thesis
  proof (intro conjI impI)
    assume "similarity_threshold \<le> Max (set sims)"
    with run mx i first len
    show "\<exists>i<length pool. sims ! i = Max (set sims) \<and> (\<forall>j<i. sims ! j < Max (set sims)) \<and>
               fst (find_opening_id_by_name score query_name api_key similarity_threshold current_time resp s) =
                 Inr (Some (opening_id (pool ! i)), Some (opening_name (pool ! i)), Max (set sims))"
      by (intro exI[of _ i]) simp
  next
    assume "Max (set sims) < similarity_threshold"
    with run mx show "fst (find_opening_id_by_name score query_name api_key similarity_threshold current_time resp s) =
              Inr (None, None, Max (set sims))" by simp
  qed
qed

theorem fuzzy_threshold_gate_witness:
  "fst (find_opening_id_by_name (\<lambda>q pool. Some [7/10, 7/10, 0]) ''Backend Eng'' ''key'' (1/2) 1000
          (Body (Some demo_raw)) initial_state) = Inr (Some ''101'', Some ''Backend Engineer'', 7/10) \<and>
   fst (find_opening_id_by_name (\<lambda>q pool. Some [7/10, 7/10, 0]) ''Backend Eng'' ''key'' (95/100) 1000
          (Body (Some demo_raw)) initial_state) = Inr (None, None, 7/10)"
proof -
  let ?sc = "\<lambda>(q::string) (pool::string list). Some [7/10, 7/10, 0::real]"
  have ne: "demo_pool \<noteq> []" by (simp add: demo_pool_def)
  have nx: "\<forall>op\<in>set demo_pool. opening_id op \<noteq> ''Backend Eng'' \<and> opening_name op \<noteq> ''Backend Eng''"
    by (simp add: demo_pool_def)
  have sc: "?sc ''Backend Eng'' (map opening_name demo_pool) = Some [7/10, 7/10, 0]" by simp
  have len: "length [7/10, 7/10, 0::real] = length demo_pool" by (simp add: demo_pool_def)
  have mx: "Max (set [7/10, 7/10, 0::real]) = 7/10" by simp
  note g = fuzzy_threshold_gate[OF demo_fetch ne nx sc len, unfolded mx]
  have lo: "(1/2::real) \<le> 7/10" and hi: "(7/10::real) < 95/100" by simp_all
  from g[of "1/2"] lo obtain i where i: "i < length demo_pool" "\<forall>j<i. [7/10, 7/10, 0::real] ! j < 7/10"
    and r: "fst (find_opening_id_by_name ?sc ''Backend Eng'' ''key'' (1/2) 1000 (Body (Some demo_raw)) initial_state) =
            Inr (Some (opening_id (demo_pool ! i)), Some (opening_name (demo_pool ! i)), 7/10)"
    by blast
  have "i = 0"
  proof (rule ccontr)
    assume "i \<noteq> 0"
    then have "0 < i" by simp
    with i(2) have "[7/10, 7/10, 0::real] ! 0 < 7/10" by blast
    then show False by simp
  qed
  with r have a: "fst (find_opening_id_by_name ?sc ''Backend Eng'' ''key'' (1/2) 1000 (Body (Some demo_raw)) initial_state) =
            Inr (Some ''101'', Some ''Backend Engineer'', 7/10)" by (simp add: demo_pool_def)
  from g[of "95/100"] hi
  have b: "fst (find_opening_id_by_name ?sc ''Backend Eng'' ''key'' (95/100) 1000 (Body (Some demo_raw)) initial_state) =
            Inr (None, None, 7/10)" by blast
  from a b show ?thesis by blast
qed
section \<open>Score 1.0 and exact matches (C3)\<close>

text \<open>
  The claim that the score is 1.0 only for an exact match fails. With the single active
  opening \<open>Engineer\<close> (id 7) and the query \<open>engineer\<close>, neither the id nor the name equals
  the query, the vectorizer lower-cases both to the same token, the cosine similarity is
  1, and the fuzzy fallback returns score 1.0.
\<close>

theorem fuzzy_score_one_counterexample:
  "fst (find_opening_id_by_name tfidf_cosine ''engineer'' ''key'' (1/2) 1000
          (Body (Some engineer_raw)) initial_state) = Inr (Some ''7'', Some ''Engineer'', 1) \<and>
   fst (get_base_openings ''key'' True 1000 (Body (Some engineer_raw)) initial_state) =
     Inr [\<lparr>opening_id = ''7'', opening_name = ''Engineer''\<rparr>] \<and>
   ''7'' \<noteq> ''engineer'' \<and> ''Engineer'' \<noteq> ''engineer''"
proof -
  have "fst (get_base_openings ''key'' True 1000 (Body (Some engineer_raw)) initial_state) =
     Inr [\<lparr>opening_id = ''7'', opening_name = ''Engineer''\<rparr>]"
    by (simp add: engineer_fetch engineer_pool_def)
  moreover have "''7'' \<noteq> ''engineer'' \<and> ''Engineer'' \<noteq> ''engineer''" by simp
  ultimately show ?thesis using engineer_resolution by blast
qed

text \<open>
  Claim C3, amended. Every exact match yields score 1.0 with a non-null id. A score of 1.0
  comes from an exact match or from a fuzzy fallback whose best cosine similarity is
  itself 1.0; it does not imply an exact match.
\<close>

theorem score_one_characterisation:
  assumes fetch: "get_base_openings api_key True current_time resp s = (Inr pool, s1)"
    and res: "fst (find_opening_id_by_name score query_name api_key similarity_threshold current_time resp s) =
                Inr (rid, rname, sc)"
  shows "((\<exists>op\<in>set pool. opening_id op = query_name \<or> opening_name op = query_name) \<longrightarrow>
            sc = 1 \<and> rid \<noteq> None) \<and>
         (sc = 1 \<longrightarrow>
            (\<exists>op\<in>set pool. opening_id op = query_name \<or> opening_name op = query_name) \<or>
            (\<exists>sims. score query_name (map opening_name pool) = Some sims \<and> sims \<noteq> [] \<and>
                    Max (set sims) = 1))"
proof (cases "find (is_exact query_name) pool")
  case (Some m)
  then have ex: "\<exists>op\<in>set pool. opening_id op = query_name \<or> opening_name op = query_name"
    by (auto simp: find_Some_iff is_exact_def)
  from res find_opening_exact[OF fetch Some, of score similarity_threshold]
  have "rid = Some (opening_id m)" and "sc = 1" by simp_all
  with ex show ?thesis by blast
next
  case None
  then have nex: "\<not> (\<exists>op\<in>set pool. opening_id op = query_name \<or> opening_name op = query_name)"
    by (auto simp: find_None_iff is_exact_def)
  have "sc = 1 \<longrightarrow> (\<exists>sims. score query_name (map opening_name pool) = Some sims \<and> sims \<noteq> [] \<and>
                    Max (set sims) = 1)"
  proof (cases "pool = []")
    case True
    with res find_opening_empty[of api_key current_time resp s s1 score query_name similarity_threshold] fetch
    have "sc = 0" by simp
    then show ?thesis by simp
  next
    case ne: False
    show ?thesis
    proof (cases "score query_name (map opening_name pool)")
      case no: None
      from res find_opening_scorer_raises[where score=score and similarity_threshold=similarity_threshold, OF fetch ne None no]
      have "sc = 0" by simp
      then show ?thesis by simp
    next
      case sims: (Some sims)
      show ?thesis
      proof (cases "argmax sims")
        case am: None
        from res find_opening_argmax_raises[where score=score and similarity_threshold=similarity_threshold, OF fetch ne None sims am]
        have "sc = 0" by simp
        then show ?thesis by simp
      next
        case am: (Some i)
        have nes: "sims \<noteq> []" using am by (auto simp: argmax_def)
        have mx: "sims ! i = Max (set sims)" by (rule argmax_Max[OF am])
        from res find_opening_fuzzy[where score=score and similarity_threshold=similarity_threshold, OF fetch ne None sims am]
        have "sc = 0 \<or> sc = sims ! i"
          by (cases "similarity_threshold \<le> sims ! i"; cases "i < length pool") simp_all
        then show ?thesis
        proof
          assume "sc = 0" then show ?thesis by simp
        next
          assume "sc = sims ! i"
          with mx have "sc = 1 \<longrightarrow> Max (set sims) = 1" by simp
          with nes sims show ?thesis by blast
        qed
      qed
    qed
  qed
  with nex show ?thesis by blast
qed

theorem score_one_characterisation_witness:
  "(\<exists>op\<in>set engineer_pool. opening_id op = ''engineer'' \<or> opening_name op = ''engineer'') \<or>
   (\<exists>sims. tfidf_cosine ''engineer'' (map opening_name engineer_pool) = Some sims \<and> sims \<noteq> [] \<and>
           Max (set sims) = 1)"
proof -
  have "(1::real) = 1 \<longrightarrow>
     (\<exists>op\<in>set engineer_pool. opening_id op = ''engineer'' \<or> opening_name op = ''engineer'') \<or>
     (\<exists>sims. tfidf_cosine ''engineer'' (map opening_name engineer_pool) = Some sims \<and> sims \<noteq> [] \<and>
           Max (set sims) = 1)"
    using score_one_characterisation[OF engineer_fetch engineer_resolution] by (rule conjunct2)
  then show ?thesis by simp
qed
section \<open>Errors inside a resolution attempt (C4)\<close>




section \<open>Time to live of a cache entry (C5)\<close>

text \<open>
  Claim C5. For each of the three cache kinds: a read-through call at time \<open>t0\<close> on a
  cold or expired entry, answered by the upstream, makes one upstream request, returns
  what it fetched and populates the cache. Another read-through call at any time strictly
  before \<open>t0 + CACHE_TTL\<close> then returns the same data and leaves the state as it is, so
  that the two calls together made one request; and a call at or after \<open>t0 + CACHE_TTL\<close>
  makes the upstream request again. The credential is present in every call, as the
  module's start-up check and its callers ensure.
\<close>

theorem cache_ttl_respected:
  assumes key: "api_key \<noteq> []" and akey: "ACCOUNT_API_KEY \<noteq> []"
    and m1: "data (cache_openings s) = None \<or> CACHE_TTL \<le> t0 - timestamp (cache_openings s)"
    and m2: "data (cache_job_descriptions s) = None
               \<or> CACHE_TTL \<le> t0 - timestamp (cache_job_descriptions s)"
    and m3: "data (cache_users_info s) = None \<or> CACHE_TTL \<le> t0 - timestamp (cache_users_info s)"
    and ok: "\<not> users_fetch_fails r3"
  shows "(let c = get_base_openings api_key True t0 (Body body) s
          in fst c = Inr (active_openings (case body of None \<Rightarrow> [] | Some os \<Rightarrow> os)) \<and>
             posts OpeningList (snd c) = Suc (posts OpeningList s) \<and>
             (t1 < t0 + CACHE_TTL \<longrightarrow> get_base_openings api_key True t1 r' (snd c) = c) \<and>
             (t0 + CACHE_TTL \<le> t1 \<longrightarrow>
                posts OpeningList (snd (get_base_openings api_key True t1 r' (snd c))) =
                  Suc (Suc (posts OpeningList s)))) \<and>
         (let c = get_job_descriptions get_text api_key True t0 (Body (Some os)) s
          in fst c = Inr (jd_results get_text os) \<and>
             posts OpeningList (snd c) = Suc (posts OpeningList s) \<and>
             (t1 < t0 + CACHE_TTL \<longrightarrow> get_job_descriptions get_text api_key True t1 r' (snd c) = c) \<and>
             (t0 + CACHE_TTL \<le> t1 \<longrightarrow>
                posts OpeningList (snd (get_job_descriptions get_text api_key True t1 r' (snd c))) =
                  Suc (Suc (posts OpeningList s)))) \<and>
         (let c = get_users_info ACCOUNT_API_KEY True t0 r3 s
          in (r3 = Body NoUsersList \<longrightarrow> fst c = Map.empty) \<and>
             (r3 = Body (Users us) \<longrightarrow> build_user_map us Map.empty = Some (fst c)) \<and>
             posts UsersDirectory (snd c) = Suc (posts UsersDirectory s) \<and>
             (t1 < t0 + CACHE_TTL \<longrightarrow> get_users_info ACCOUNT_API_KEY True t1 r3' (snd c) = c) \<and>
             (t0 + CACHE_TTL \<le> t1 \<longrightarrow>
                posts UsersDirectory (snd (get_users_info ACCOUNT_API_KEY True t1 r3' (snd c))) =
                  Suc (Suc (posts UsersDirectory s))))"
proof (intro conjI)
  let ?d = "active_openings (case body of None \<Rightarrow> [] | Some os \<Rightarrow> os)"
  let ?s1 = "(http_post OpeningList s)\<lparr>cache_openings := \<lparr>data = Some ?d, timestamp = t0\<rparr>\<rparr>"
  have c: "get_base_openings api_key True t0 (Body body) s = (Inr ?d, ?s1)"
    by (rule openings_first_call[OF key m1])
  have went: "posts OpeningList ?s1 = Suc (posts OpeningList s)"
    by (simp add: posts_http_post)
  from openings_ttl[OF key c went, of t1 r'] went
  show "let c = get_base_openings api_key True t0 (Body body) s
          in fst c = Inr ?d \<and>
             posts OpeningList (snd c) = Suc (posts OpeningList s) \<and>
             (t1 < t0 + CACHE_TTL \<longrightarrow> get_base_openings api_key True t1 r' (snd c) = c) \<and>
             (t0 + CACHE_TTL \<le> t1 \<longrightarrow>
                posts OpeningList (snd (get_base_openings api_key True t1 r' (snd c))) =
                  Suc (Suc (posts OpeningList s)))"
    unfolding c Let_def fst_conv snd_conv by blast
next
  let ?d = "jd_results get_text os"
  let ?s1 = "(http_post OpeningList s)\<lparr>cache_job_descriptions := \<lparr>data = Some ?d, timestamp = t0\<rparr>\<rparr>"
  have c: "get_job_descriptions get_text api_key True t0 (Body (Some os)) s = (Inr ?d, ?s1)"
    by (rule job_descriptions_first_call[OF key m2])
  have went: "posts OpeningList ?s1 = Suc (posts OpeningList s)"
    by (simp add: posts_http_post)
  have entry: "cache_job_descriptions ?s1 = \<lparr>data = Some ?d, timestamp = t0\<rparr>" by simp
  from job_descriptions_ttl[OF key entry went, of t1 get_text r'] went
  show "let c = get_job_descriptions get_text api_key True t0 (Body (Some os)) s
          in fst c = Inr (jd_results get_text os) \<and>
             posts OpeningList (snd c) = Suc (posts OpeningList s) \<and>
             (t1 < t0 + CACHE_TTL \<longrightarrow> get_job_descriptions get_text api_key True t1 r' (snd c) = c) \<and>
             (t0 + CACHE_TTL \<le> t1 \<longrightarrow>
                posts OpeningList (snd (get_job_descriptions get_text api_key True t1 r' (snd c))) =
                  Suc (Suc (posts OpeningList s)))"
    unfolding c Let_def fst_conv snd_conv by blast
next
  from users_info_first_call[OF akey m3 ok] obtain m where
    c: "get_users_info ACCOUNT_API_KEY True t0 r3 s =
          (m, (http_post UsersDirectory s)\<lparr>cache_users_info := \<lparr>data = Some m, timestamp = t0\<rparr>\<rparr>)"
    and v1: "r3 = Body NoUsersList \<longrightarrow> m = Map.empty"
    and v2: "\<forall>us. r3 = Body (Users us) \<longrightarrow> build_user_map us Map.empty = Some m"
    by blast
  let ?s1 = "(http_post UsersDirectory s)\<lparr>cache_users_info := \<lparr>data = Some m, timestamp = t0\<rparr>\<rparr>"
  have went: "posts UsersDirectory ?s1 = Suc (posts UsersDirectory s)"
    by (simp add: posts_http_post)
  have entry: "cache_users_info ?s1 = \<lparr>data = Some m, timestamp = t0\<rparr>" by simp
  from users_info_ttl[OF akey entry went, of t1 r3'] went v1 v2
  show "let c = get_users_info ACCOUNT_API_KEY True t0 r3 s
          in (r3 = Body NoUsersList \<longrightarrow> fst c = Map.empty) \<and>
             (r3 = Body (Users us) \<longrightarrow> build_user_map us Map.empty = Some (fst c)) \<and>
             posts UsersDirectory (snd c) = Suc (posts UsersDirectory s) \<and>
             (t1 < t0 + CACHE_TTL \<longrightarrow> get_users_info ACCOUNT_API_KEY True t1 r3' (snd c) = c) \<and>
             (t0 + CACHE_TTL \<le> t1 \<longrightarrow>
                posts UsersDirectory (snd (get_users_info ACCOUNT_API_KEY True t1 r3' (snd c))) =
                  Suc (Suc (posts UsersDirectory s)))"
    unfolding c Let_def fst_conv snd_conv by blast
qed

theorem cache_ttl_respected_witness:
  "get_base_openings ''key'' True 1299 RequestException demo_state = (Inr demo_pool, demo_state) \<and>
   posts OpeningList (snd (get_base_openings ''key'' True 1300 RequestException demo_state)) = 2 \<and>
   (let c = get_job_descriptions (\<lambda>h. h) ''key'' True 1000 (Body (Some padded_raw)) initial_state
    in fst c = Inr [\<lparr>jd_id = ''9'', jd_name = ''Intern'', job_description = ''hi'',
                     html_content = ''hi        ''\<rparr>] \<and>
       get_job_descriptions (\<lambda>h. h) ''key'' True 1299 RequestException (snd c) = c \<and>
       posts OpeningList (snd (get_job_descriptions (\<lambda>h. h) ''key'' True 1300 RequestException (snd c))) = 2) \<and>
   (let c = get_users_info ''acct'' True 1000 (Body (Users hoang_users)) initial_state
    in fst c ''hoang'' = Some \<lparr>ui_name = ''Hoang Tran'', ui_title = ''CEO''\<rparr> \<and>
       get_users_info ''acct'' True 1299 RequestException (snd c) = c \<and>
       posts UsersDirectory (snd (get_users_info ''acct'' True 1300 RequestException (snd c))) = 2)"
proof -
  have k: "''key'' \<noteq> []" and ak: "''acct'' \<noteq> []" by simp_all
  have m1: "data (cache_openings initial_state) = None
      \<or> CACHE_TTL \<le> 1000 - timestamp (cache_openings initial_state)"
    and m2: "data (cache_job_descriptions initial_state) = None
      \<or> CACHE_TTL \<le> 1000 - timestamp (cache_job_descriptions initial_state)"
    and m3: "data (cache_users_info initial_state) = None
      \<or> CACHE_TTL \<le> 1000 - timestamp (cache_users_info initial_state)"
    by (simp_all add: initial_state_def empty_entry_def)
  have ok: "\<not> users_fetch_fails (Body (Users hoang_users))"
    by (simp add: users_fetch_fails_def hoang_users_def)
  have p0: "posts OpeningList initial_state = 0" "posts UsersDirectory initial_state = 0"
    by (simp_all add: posts_def initial_state_def)
  have lt: "(1299::real) < 1000 + CACHE_TTL" and ge: "(1000::real) + CACHE_TTL \<le> 1300"
    by (simp_all add: CACHE_TTL_def)
  have bm: "build_user_map hoang_users Map.empty =
      Some [''hoang'' \<mapsto> \<lparr>ui_name = ''Hoang Tran'', ui_title = ''CEO''\<rparr>]"
    by (simp add: hoang_users_def or_empty_def)
  note t = cache_ttl_respected[OF k ak m1 m2 m3 ok, where body="Some demo_raw" and os=padded_raw
      and get_text="\<lambda>h. h" and us=hoang_users and r'=RequestException and r3'=RequestException,
      unfolded Let_def demo_fetch padded_results fst_conv snd_conv p0]
  from t[of 1299] lt have a1: "get_base_openings ''key'' True 1299 RequestException demo_state =
      (Inr demo_pool, demo_state)" by blast
  from t[of 1300] ge have a2: "posts OpeningList (snd (get_base_openings ''key'' True 1300
      RequestException demo_state)) = Suc (Suc 0)" by blast
  let ?cj = "get_job_descriptions (\<lambda>h. h) ''key'' True 1000 (Body (Some padded_raw)) initial_state"
  from t[of 1299] have b0: "fst ?cj = Inr [\<lparr>jd_id = ''9'', jd_name = ''Intern'',
      job_description = ''hi'', html_content = ''hi        ''\<rparr>]" by blast
  from t[of 1299] lt have b1: "get_job_descriptions (\<lambda>h. h) ''key'' True 1299 RequestException
      (snd ?cj) = ?cj" by blast
  from t[of 1300] ge have b2: "posts OpeningList (snd (get_job_descriptions (\<lambda>h. h) ''key'' True
      1300 RequestException (snd ?cj))) = Suc (Suc 0)" by blast
  let ?cu = "get_users_info ''acct'' True 1000 (Body (Users hoang_users)) initial_state"
  from t[of 1299] have "build_user_map hoang_users Map.empty = Some (fst ?cu)" by blast
  with bm have c0: "fst ?cu ''hoang'' = Some \<lparr>ui_name = ''Hoang Tran'', ui_title = ''CEO''\<rparr>"
    by simp
  from t[of 1299] lt have c1: "get_users_info ''acct'' True 1299 RequestException (snd ?cu) = ?cu"
    by blast
  from t[of 1300] ge have c2: "posts UsersDirectory (snd (get_users_info ''acct'' True 1300
      RequestException (snd ?cu))) = Suc (Suc 0)" by blast
  from a1 a2 b0 b1 b2 c0 c1 c2 show ?thesis by (simp add: Let_def)
qed

section \<open>Bypassing the cache (C6)\<close>

text \<open>
  Claim C6. A call with \<^verbatim>\<open>use_cache=False\<close> should make the upstream request and store
  what it fetched, with the current timestamp, before returning it; the callers make such
  a call under the comment that it refreshes the cache. The loaders do make the request,
  but their write to \<^verbatim>\<open>_cache\<close> stands under \<^verbatim>\<open>if use_cache\<close>. With an empty
  job-description list stored at time 1000, the bypassing call at time 1100 returns the
  fetched description, the entry keeps its list and its timestamp, and the read-through
  call at time 1101 still returns the empty list. The opening loader behaves alike.
\<close>

theorem bypass_leaves_cache_stale:
  "fst (get_job_descriptions (\<lambda>h. h) ''key'' False 1100 (Body (Some padded_raw)) jd_stale_state) =
     Inr [\<lparr>jd_id = ''9'', jd_name = ''Intern'', job_description = ''hi'', html_content = ''hi        ''\<rparr>] \<and>
   cache_job_descriptions
     (snd (get_job_descriptions (\<lambda>h. h) ''key'' False 1100 (Body (Some padded_raw)) jd_stale_state)) =
     \<lparr>data = Some [], timestamp = 1000\<rparr> \<and>
   fst (get_job_descriptions (\<lambda>h. h) ''key'' True 1101 (Body (Some padded_raw))
          (snd (get_job_descriptions (\<lambda>h. h) ''key'' False 1100 (Body (Some padded_raw)) jd_stale_state))) =
     Inr [] \<and>
   fst (get_base_openings ''key'' False 2000 (Body (Some engineer_raw)) demo_state) = Inr engineer_pool \<and>
   cache_openings (snd (get_base_openings ''key'' False 2000 (Body (Some engineer_raw)) demo_state)) =
     \<lparr>data = Some demo_pool, timestamp = 1000\<rparr>"
proof -
  have a: "get_job_descriptions (\<lambda>h. h) ''key'' False 1100 (Body (Some padded_raw)) jd_stale_state =
      (Inr (jd_results (\<lambda>h. h) padded_raw), http_post OpeningList jd_stale_state)"
    by (simp add: get_job_descriptions_def fetch_job_descriptions_def Let_def)
  have b: "get_job_descriptions (\<lambda>h. h) ''key'' True 1101 (Body (Some padded_raw))
      (http_post OpeningList jd_stale_state) = (Inr [], http_post OpeningList jd_stale_state)"
    by (simp add: get_job_descriptions_def jd_stale_state_def CACHE_TTL_def)
  have c: "cache_job_descriptions (http_post OpeningList jd_stale_state) =
      \<lparr>data = Some [], timestamp = 1000\<rparr>"
    by (simp add: jd_stale_state_def)
  have d: "get_base_openings ''key'' False 2000 (Body (Some engineer_raw)) demo_state =
      (Inr engineer_pool, http_post OpeningList demo_state)"
    by (simp add: get_base_openings_def fetch_openings_def Let_def
        engineer_raw_def engineer_pool_def active_openings_def)
  have e: "cache_openings (http_post OpeningList demo_state) = \<lparr>data = Some demo_pool, timestamp = 1000\<rparr>"
    by (simp add: demo_state_def)
  show ?thesis unfolding a d fst_conv snd_conv b
    by (simp add: padded_results jd_stale_state_def demo_state_def)
qed

section \<open>Stage-name resolution (C7)\<close>

text \<open>
  Claim C7. Let the pool be the distinct stage names of the candidates, in whatever order
  \<^verbatim>\<open>list(set(...))\<close> yields them. If the requested stage name is in the pool, the
  candidates of exactly that stage are kept. Otherwise, if the scorer's best similarity is
  at least 0.3, the candidates of the first stage name that achieves it are kept. If the
  best similarity is below 0.3, or the scorer raises, or no candidate carries a stage name,
  the candidate list is not filtered. In \<^verbatim>\<open>app.py\<close> this list is what the function
  goes on to return.
\<close>

theorem stage_name_resolution:
  assumes los: "set (list_of_set (stage_names_of candidates)) = set (stage_names_of candidates)"
  shows "(query \<in> set (stage_names_of candidates) \<longrightarrow>
            fst (stage_filter score list_of_set (Some query) candidates s) =
              filter (\<lambda>c. cand_stage_name c = Some query) candidates) \<and>
         (query \<notin> set (stage_names_of candidates) \<and>
          score query (list_of_set (stage_names_of candidates)) = Some sims \<and>
          length sims = length (list_of_set (stage_names_of candidates)) \<and> sims \<noteq> [] \<and>
          3 / 10 \<le> Max (set sims) \<longrightarrow>
            (\<exists>i<length sims. sims ! i = Max (set sims) \<and> (\<forall>j<i. sims ! j < Max (set sims)) \<and>
               fst (stage_filter score list_of_set (Some query) candidates s) =
                 filter (\<lambda>c. cand_stage_name c = Some (list_of_set (stage_names_of candidates) ! i))
                   candidates)) \<and>
         (query \<notin> set (stage_names_of candidates) \<and>
          (score query (list_of_set (stage_names_of candidates)) = None \<or>
           score query (list_of_set (stage_names_of candidates)) = Some sims \<and>
             (sims = [] \<or> Max (set sims) < 3 / 10)) \<longrightarrow>
            fst (stage_filter score list_of_set (Some query) candidates s) = candidates) \<and>
         (stage_names_of candidates = [] \<longrightarrow>
            fst (stage_filter score list_of_set (Some query) candidates s) = candidates) \<and>
         (candidates \<noteq> [] \<longrightarrow>
            fst (get_candidates_for_opening_app score list_of_set (Some query) now
                   (Body (Some candidates)) s) =
              Inr (fst (stage_filter score list_of_set (Some query) candidates
                          (http_post CandidateList s))))"
proof (intro conjI impI)
  let ?names = "list_of_set (stage_names_of candidates)"
  {
    assume q: "query \<in> set (stage_names_of candidates)"
    then have "query \<in> set ?names" using los by simp
    then have "fst (stage_filter score list_of_set (Some query) candidates s) =
        filter_by_stage (Some [query]) candidates" by (rule stage_filter_exact)
    also have "\<dots> = filter (\<lambda>c. cand_stage_name c = Some query) candidates"
      using stage_names_nonempty[OF q] by (rule filter_single_stage)
    finally show "fst (stage_filter score list_of_set (Some query) candidates s) =
        filter (\<lambda>c. cand_stage_name c = Some query) candidates" .
  }
  {
    assume a: "query \<notin> set (stage_names_of candidates) \<and>
          score query ?names = Some sims \<and> length sims = length ?names \<and> sims \<noteq> [] \<and>
          3 / 10 \<le> Max (set sims)"
    then have nq: "query \<notin> set ?names" using los by simp
    from a have ne: "?names \<noteq> []" by auto
    from a obtain i where am: "argmax sims = Some i"
      by (cases "argmax sims") (auto simp: argmax_def split: list.splits)
    have i: "i < length sims" and first: "\<forall>j<i. sims ! j < sims ! i"
      using argmax_Some[OF am] by blast+
    have mx: "sims ! i = Max (set sims)" by (rule argmax_Max[OF am])
    have "?names ! i \<in> set ?names" using i a by simp
    then have "?names ! i \<in> set (stage_names_of candidates)" using los by simp
    then have nonempty: "?names ! i \<noteq> []" by (rule stage_names_nonempty)
    have "fst (stage_filter score list_of_set (Some query) candidates s) =
        filter_by_stage (Some [?names ! i]) candidates"
      using stage_filter_fuzzy[where score=score and list_of_set=list_of_set and candidates=candidates and query=query and sims=sims and s=s, OF nq ne] a am mx i by simp
    also have "\<dots> = filter (\<lambda>c. cand_stage_name c = Some (?names ! i)) candidates"
      using nonempty by (rule filter_single_stage)
    finally have "fst (stage_filter score list_of_set (Some query) candidates s) =
        filter (\<lambda>c. cand_stage_name c = Some (?names ! i)) candidates" .
    with i mx first
    show "\<exists>i<length sims. sims ! i = Max (set sims) \<and> (\<forall>j<i. sims ! j < Max (set sims)) \<and>
               fst (stage_filter score list_of_set (Some query) candidates s) =
                 filter (\<lambda>c. cand_stage_name c = Some (?names ! i)) candidates"
      by (intro exI[of _ i]) simp
  }
  {
    assume a: "query \<notin> set (stage_names_of candidates) \<and>
          (score query ?names = None \<or>
           score query ?names = Some sims \<and> (sims = [] \<or> Max (set sims) < 3 / 10))"
    then have nq: "query \<notin> set ?names" using los by simp
    show "fst (stage_filter score list_of_set (Some query) candidates s) = candidates"
    proof (cases "score query ?names")
      case None
      with nq show ?thesis by (simp add: stage_filter_scorer_raises)
    next
      case (Some sims')
      with a have eq: "sims' = sims" and low: "sims = [] \<or> Max (set sims) < 3 / 10" by auto
      show ?thesis
      proof (cases "?names = []")
        case True
        then show ?thesis by (rule stage_filter_no_names)
      next
        case False
        have "(case argmax sims of None \<Rightarrow> candidates
               | Some i \<Rightarrow> if 3 / 10 \<le> sims ! i \<and> i < length ?names
                   then filter_by_stage (Some [?names ! i]) candidates else candidates) = candidates"
        proof (cases "argmax sims")
          case None then show ?thesis by simp
        next
          case (Some i)
          then have "sims \<noteq> []" by (auto simp: argmax_def)
          with low have "Max (set sims) < 3 / 10" by simp
          with argmax_Max[OF Some] Some show ?thesis by simp
        qed
        with stage_filter_fuzzy[where score=score and list_of_set=list_of_set and candidates=candidates and query=query and sims=sims and s=s, OF nq False] Some eq show ?thesis by simp
      qed
    qed
  }
  {
    assume "stage_names_of candidates = []"
    then have "?names = []" using los by simp
    then show "fst (stage_filter score list_of_set (Some query) candidates s) = candidates"
      by (rule stage_filter_no_names)
  }
  {
    assume "candidates \<noteq> []"
    then show "fst (get_candidates_for_opening_app score list_of_set (Some query) now
                   (Body (Some candidates)) s) =
              Inr (fst (stage_filter score list_of_set (Some query) candidates
                          (http_post CandidateList s)))"
      by (rule app_listing)
  }
qed

theorem stage_name_resolution_witness:
  "fst (stage_filter (\<lambda>q p. None) remdups (Some ''Offered'') demo_candidates initial_state) =
     filter (\<lambda>c. cand_stage_name c = Some ''Offered'') demo_candidates \<and>
   fst (stage_filter (\<lambda>q p. Some [1/10, 8/10]) remdups (Some ''interviews'') demo_candidates
          initial_state) =
     filter (\<lambda>c. cand_stage_name c = Some ''Interview'') demo_candidates \<and>
   fst (stage_filter (\<lambda>q p. Some [1/10, 2/10]) remdups (Some ''screening'') demo_candidates
          initial_state) = demo_candidates"
proof -
  have los: "set (remdups (stage_names_of demo_candidates)) = set (stage_names_of demo_candidates)"
    by simp
  have names: "stage_names_of demo_candidates = [''Interview'', ''Offered'', ''Interview'']"
    by (simp add: stage_names_of_def demo_candidates_def truthy_def or_empty_def)
  have rd: "remdups (stage_names_of demo_candidates) = [''Offered'', ''Interview'']"
    by (simp add: names)
  have a: "fst (stage_filter (\<lambda>q p. None) remdups (Some ''Offered'') demo_candidates initial_state) =
     filter (\<lambda>c. cand_stage_name c = Some ''Offered'') demo_candidates"
    using stage_name_resolution[where list_of_set=remdups and candidates=demo_candidates and query="''Offered''" and score="\<lambda>q p. None"
        and s=initial_state, OF los, THEN conjunct1]
    by (simp add: names)
  let ?sims = "[1/10, 8/10::real]"
  have mx: "Max (set ?sims) = 8/10" by simp
  have prem: "''interviews'' \<notin> set (stage_names_of demo_candidates) \<and>
      (\<lambda>q p. Some ?sims) ''interviews'' (remdups (stage_names_of demo_candidates)) = Some ?sims \<and>
      length ?sims = length (remdups (stage_names_of demo_candidates)) \<and> ?sims \<noteq> [] \<and>
      3 / 10 \<le> Max (set ?sims)"
    by (simp add: names)
  from stage_name_resolution[where list_of_set=remdups and candidates=demo_candidates
        and query="''interviews''" and score="\<lambda>q p. Some ?sims" and sims="?sims"
        and s=initial_state, OF los, THEN conjunct2, THEN conjunct1, THEN mp, OF prem]
  obtain i where i: "i < length ?sims" "?sims ! i = Max (set ?sims)"
    and r: "fst (stage_filter (\<lambda>q p. Some ?sims) remdups (Some ''interviews'') demo_candidates
          initial_state) =
      filter (\<lambda>c. cand_stage_name c = Some (remdups (stage_names_of demo_candidates) ! i))
        demo_candidates"
    by blast
  have "i = 1"
  proof (cases i)
    case 0
    with i(2) mx show ?thesis by simp
  next
    case (Suc k)
    with i(1) show ?thesis by simp
  qed
  with r have b: "fst (stage_filter (\<lambda>q p. Some [1/10, 8/10]) remdups (Some ''interviews'')
      demo_candidates initial_state) =
      filter (\<lambda>c. cand_stage_name c = Some ''Interview'') demo_candidates" by (simp add: rd)
  have mx2: "Max (set [1/10, 2/10::real]) = 2/10" by simp
  have c: "fst (stage_filter (\<lambda>q p. Some [1/10, 2/10]) remdups (Some ''screening'') demo_candidates
          initial_state) = demo_candidates"
    using stage_name_resolution[where list_of_set=remdups and candidates=demo_candidates and query="''screening''"
        and score="\<lambda>q p. Some [1/10, 2/10]" and sims="[1/10, 2/10]"
        and s=initial_state, OF los, THEN conjunct2, THEN conjunct2, THEN conjunct1]
    unfolding mx2 by (simp add: names)
  from a b c show ?thesis by blast
qed

section \<open>The job-description fetcher (C8)\<close>

text \<open>
  The claim identifies the text whose length is tested with the returned
  \<^verbatim>\<open>job_description\<close>; the code tests \<^verbatim>\<open>len(text_content)\<close> and returns
  \<^verbatim>\<open>text_content.strip()\<close>. An active opening whose markup-free content is \<open>hi\<close>
  followed by eight blanks has ten characters of text, is kept, and is returned with the
  two-character job description \<open>hi\<close>.
\<close>

theorem short_job_description_counterexample:
  "fst (get_job_descriptions (\<lambda>h. h) ''key'' True 1000 (Body (Some padded_raw)) initial_state) =
     Inr [\<lparr>jd_id = ''9'', jd_name = ''Intern'', job_description = ''hi'', html_content = ''hi        ''\<rparr>] \<and>
   length ''hi'' < 10"
  by (simp add: get_job_descriptions_def fetch_job_descriptions_def Let_def padded_results
      initial_state_def empty_entry_def)

text \<open>
  Claim C8, amended. On a call that goes upstream, the job-description fetcher returns, in
  upstream order, exactly the openings whose status is the active code \<open>10\<close> and whose
  markup-stripped text, before whitespace is trimmed, has at least 10 characters; the
  returned \<^verbatim>\<open>job_description\<close> is that text with leading and trailing whitespace
  removed, and may be shorter.
\<close>

theorem job_description_filter:
  assumes key: "api_key \<noteq> []"
    and miss: "\<not> use_cache \<or> data (cache_job_descriptions s) = None
                 \<or> CACHE_TTL \<le> t - timestamp (cache_job_descriptions s)"
  shows "fst (get_job_descriptions get_text api_key use_cache t (Body (Some os)) s) =
           Inr (map (\<lambda>op. \<lparr>jd_id = ro_id op, jd_name = ro_name op,
                            job_description = strip (get_text (or_empty (ro_content op))),
                            html_content = or_empty (ro_content op)\<rparr>)
                  (filter (\<lambda>op. ro_status op = Some ''10'' \<and>
                                10 \<le> length (get_text (or_empty (ro_content op)))) os))"
  using job_descriptions_miss[OF key miss, of get_text "Body (Some os)"]
  by (simp add: fetch_job_descriptions_value jd_results_map_filter)

theorem job_description_filter_witness:
  "fst (get_job_descriptions (\<lambda>h. h) ''key'' True 1000 (Body (Some padded_raw)) initial_state) =
     Inr [\<lparr>jd_id = ''9'', jd_name = ''Intern'', job_description = ''hi'', html_content = ''hi        ''\<rparr>]"
proof -
  have k: "''key'' \<noteq> []" by simp
  have m: "\<not> True \<or> data (cache_job_descriptions initial_state) = None
      \<or> CACHE_TTL \<le> 1000 - timestamp (cache_job_descriptions initial_state)"
    by (simp add: initial_state_def empty_entry_def)
  from job_description_filter[OF k m, of "\<lambda>h. h" padded_raw]
  show ?thesis by (simp add: padded_raw_def or_empty_def strip_def isspace_def)
qed

section \<open>The seven-day filter (C9)\<close>

text \<open>
  Claim C9. After stage filtering, \<^verbatim>\<open>server.py\<close> applies the recency filter if and only
  if more than 10 candidates are left: it then keeps the candidates whose
  \<^verbatim>\<open>last_update\<close> is not older than seven days before now (and raises if a value does
  not convert to an integer); with 10 candidates or fewer it returns the list as it is.
  \<^verbatim>\<open>app.py\<close> never applies the filter.
\<close>

theorem recency_filter_server_only:
  assumes ne: "candidates \<noteq> []"
  shows "fst (get_candidates_for_opening_server score list_of_set stage_name now
                (Body (Some candidates)) s) =
           (let filtered_candidates =
                  fst (stage_filter score list_of_set stage_name candidates (http_post CandidateList s))
            in if 10 < length filtered_candidates
               then (if \<exists>c\<in>set filtered_candidates. last_update_int c = None then Inl ValueError
                     else Inr (filter (\<lambda>c. \<exists>u. last_update_int c = Some u \<and> seven_days_ago_ts now \<le> u)
                                 filtered_candidates))
               else Inr filtered_candidates) \<and>
         fst (get_candidates_for_opening_app score list_of_set stage_name now
                (Body (Some candidates)) s) =
           Inr (fst (stage_filter score list_of_set stage_name candidates (http_post CandidateList s)))"
proof -
  let ?fc = "fst (stage_filter score list_of_set stage_name candidates (http_post CandidateList s))"
  have "recent_only (seven_days_ago_ts now) ?fc =
      (if \<exists>c\<in>set ?fc. last_update_int c = None then Inl ValueError
       else Inr (filter (\<lambda>c. \<exists>u. last_update_int c = Some u \<and> seven_days_ago_ts now \<le> u) ?fc))"
    using recent_only_ok[of ?fc] recent_only_bad[of ?fc] by auto
  then show ?thesis
    using server_listing[OF ne, of score list_of_set stage_name now s]
      app_listing[OF ne, of score list_of_set stage_name now s]
    by (simp add: Let_def)
qed

theorem recency_filter_server_only_witness:
  "fst (get_candidates_for_opening_server (\<lambda>q p. None) remdups None 1000000
          (Body (Some eleven_candidates)) initial_state) = Inr (drop 4 eleven_candidates) \<and>
   fst (get_candidates_for_opening_app (\<lambda>q p. None) remdups None 1000000
          (Body (Some eleven_candidates)) initial_state) = Inr eleven_candidates \<and>
   fst (get_candidates_for_opening_server (\<lambda>q p. None) remdups None 1000000
          (Body (Some demo_candidates)) initial_state) = Inr demo_candidates"
proof -
  have ne: "eleven_candidates \<noteq> []" by (simp add: eleven_candidates_def)
  have ne2: "demo_candidates \<noteq> []" by (simp add: demo_candidates_def)
  have ts: "seven_days_ago_ts 1000000 = 395200"
    by (simp add: seven_days_ago_ts_def py_int_def)
  have len: "length eleven_candidates = 11" by (simp add: eleven_candidates_def)
  have len2: "length demo_candidates = 4" by (simp add: demo_candidates_def)
  have ok: "\<not> (\<exists>c\<in>set eleven_candidates. last_update_int c = None)"
    by (simp add: eleven_candidates_def last_update_int_def)
  have kept: "filter (\<lambda>c. \<exists>u. last_update_int c = Some u \<and> 395200 \<le> u) eleven_candidates =
      drop 4 eleven_candidates"
    by (simp add: eleven_candidates_def last_update_int_def)
  from recency_filter_server_only[OF ne, of "\<lambda>q p. None" remdups None 1000000 initial_state]
  have a: "fst (get_candidates_for_opening_server (\<lambda>q p. None) remdups None 1000000
          (Body (Some eleven_candidates)) initial_state) = Inr (drop 4 eleven_candidates)"
    and b: "fst (get_candidates_for_opening_app (\<lambda>q p. None) remdups None 1000000
          (Body (Some eleven_candidates)) initial_state) = Inr eleven_candidates"
    by (simp_all add: stage_filter_none Let_def len ok kept ts)
  from recency_filter_server_only[OF ne2, of "\<lambda>q p. None" remdups None 1000000 initial_state]
  have c: "fst (get_candidates_for_opening_server (\<lambda>q p. None) remdups None 1000000
          (Body (Some demo_candidates)) initial_state) = Inr demo_candidates"
    by (simp add: stage_filter_none Let_def len2)
  from a b c show ?thesis by blast
qed

section \<open>Failures of the user directory and the cache (C10)\<close>




end
